theory Spec2Isabelle
  imports Complex_Main "HOL-Library.Stream"
begin

section \<open>Numbers, rounding and the per-pair tables\<close>

text \<open>
  Python \<open>Decimal\<close> values are embedded as exact rationals (the 28-digit context
  precision of the decimal module is not modelled), and so are the Python floats of the
  configuration and of the clock: the engine only compares, adds and multiplies them.

  \<open>Decimal.to_integral_value()\<close> is called without a rounding argument in the source,
  so it rounds with the rounding mode of the current decimal context. No file of the
  repository changes that context, hence the mode is the module default
  \<open>ROUND_HALF_EVEN\<close>: nearest integer, ties to the even neighbour.
\<close>

definition to_integral_value :: "rat \<Rightarrow> int" where
  "to_integral_value x =
     (let f = \<lfloor>x\<rfloor>; d = x - of_int f
      in if d < 1 / 2 then f
         else if 1 / 2 < d then f + 1
         else if even f then f else f + 1)"

text \<open>\<open>SYMBOL_MAPPING\<close>, \<open>QUANTITY_PRECISION\<close> and \<open>MIN_QUANTITY\<close> of \<open>MakerOrderExecutor\<close>.\<close>

definition SYMBOL_MAPPING :: "string \<rightharpoonup> string" where
  "SYMBOL_MAPPING =
     map_of [(''SOL'', ''SOLUSDT''), (''ETH'', ''ETHUSDT''), (''BTC'', ''BTCUSDT'')]"

definition QUANTITY_PRECISION :: "string \<rightharpoonup> nat" where
  "QUANTITY_PRECISION = map_of [(''SOLUSDT'', 2), (''ETHUSDT'', 3), (''BTCUSDT'', 3)]"

definition MIN_QUANTITY :: "string \<rightharpoonup> rat" where
  "MIN_QUANTITY =
     map_of [(''SOLUSDT'', 1 / 100), (''ETHUSDT'', 1 / 1000), (''BTCUSDT'', 1 / 1000)]"

definition get_trading_pair :: "string \<Rightarrow> string" where
  "get_trading_pair symbol =
     (case SYMBOL_MAPPING symbol of Some tp \<Rightarrow> tp | None \<Rightarrow> symbol @ ''USDT'')"

text \<open>
  \<open>_round_quantity\<close>, parameterised by the precision and the minimum the two table
  lookups deliver, and the method itself with the lookups and their defaults
  (\<open>.get(trading_pair, 2)\<close> and \<open>.get(trading_pair, Decimal("0.001"))\<close>).
  \<open>OrderExecutor._round_quantity\<close> has the same body and the same tables.
\<close>

definition round_quantity_at :: "nat \<Rightarrow> rat \<Rightarrow> rat \<Rightarrow> rat" where
  "round_quantity_at precision min_qty quantity =
     (let factor = 10 ^ precision;
          rounded = of_int (to_integral_value (quantity * factor)) / factor
      in if rounded < min_qty then 0 else rounded)"

definition quantity_precision :: "string \<Rightarrow> nat" where
  "quantity_precision trading_pair =
     (case QUANTITY_PRECISION trading_pair of Some p \<Rightarrow> p | None \<Rightarrow> 2)"

definition min_quantity :: "string \<Rightarrow> rat" where
  "min_quantity trading_pair =
     (case MIN_QUANTITY trading_pair of Some m \<Rightarrow> m | None \<Rightarrow> 1 / 1000)"

definition round_quantity :: "string \<Rightarrow> rat \<Rightarrow> rat" where
  "round_quantity trading_pair quantity =
     round_quantity_at (quantity_precision trading_pair) (min_quantity trading_pair) quantity"

text \<open>The value the claim about rounding describes: the floor at the given precision.\<close>

definition floor_quantity_spec :: "nat \<Rightarrow> rat \<Rightarrow> rat \<Rightarrow> rat" where
  "floor_quantity_spec precision min_qty quantity =
     (let floored = of_int \<lfloor>quantity * 10 ^ precision\<rfloor> / 10 ^ precision
      in if min_qty \<le> floored then floored else 0)"

section \<open>Configuration\<close>

text \<open>
  \<open>MakerOrderConfig\<close>. \<open>partial_fill_threshold\<close> holds the value of
  \<open>Decimal(str(self.config.partial_fill_threshold))\<close>, the decimal the engine compares
  the fill ratio with.
\<close>

record MakerOrderConfig =
  order_timeout :: rat
  check_interval_ms :: int
  price_tolerance :: rat
  max_iterations :: int
  total_timeout :: rat
  partial_fill_threshold :: rat
  min_remaining_ratio :: rat
  split_order_enabled :: bool
  split_order_threshold :: rat
  split_order_min_value :: rat
  split_order_max_value :: rat
  split_order_random :: bool
  price_precision :: "string \<rightharpoonup> nat"

definition default_config :: MakerOrderConfig where
  "default_config =
     \<lparr> order_timeout = 5, check_interval_ms = 200, price_tolerance = 2 / 10000,
       max_iterations = 120, total_timeout = 600, partial_fill_threshold = 95 / 100,
       min_remaining_ratio = 5 / 100, split_order_enabled = True,
       split_order_threshold = 500, split_order_min_value = 100,
       split_order_max_value = 300, split_order_random = True,
       price_precision = map_of [(''SOLUSDT'', 2), (''ETHUSDT'', 2), (''BTCUSDT'', 1)] \<rparr>"

definition round_price :: "MakerOrderConfig \<Rightarrow> string \<Rightarrow> rat \<Rightarrow> rat" where
  "round_price cfg trading_pair price =
     (let precision = (case price_precision cfg trading_pair of Some p \<Rightarrow> p | None \<Rightarrow> 2);
          factor = 10 ^ precision
      in of_int (to_integral_value (price * factor)) / factor)"

section \<open>The replace decision\<close>

datatype OrderSide = BUY | SELL

text \<open>
  \<open>_should_replace_order\<close>; the second component of the Python tuple is the log text
  and is left out.
\<close>

definition should_replace_order :: "MakerOrderConfig \<Rightarrow> OrderSide \<Rightarrow> rat \<Rightarrow> rat \<Rightarrow> bool" where
  "should_replace_order cfg side order_price current_best_price =
     (if order_price = 0 then False
      else let price_change = \<bar>current_best_price - order_price\<bar> / order_price
           in if side = SELL \<and> order_price < current_best_price then True
              else if side \<noteq> SELL \<and> current_best_price < order_price then True
              else if price_tolerance cfg < price_change then True
              else False)"

section \<open>The exchange gateway\<close>

text \<open>
  The gateway (\<open>AsterDexClient\<close>) and the wall clock are the engine's environment.
  Each kind of call reads the next element of its own infinite stream of responses, so a
  gateway value is one complete behaviour of the exchange, the clock and the random
  generator; \<open>asyncio.sleep\<close> has no effect other than the passing of time, which the
  clock stream decides.

  The answer of the exchange to a status query may depend on the order that is queried:
  an element of \<open>orders\<close> is a function of the quantity of that order (the \<open>origQty\<close> the
  exchange stored at placement).
\<close>

datatype depth_resp = Depth "(rat \<times> rat) list" "(rat \<times> rat) list" | DepthRaises

datatype get_order_resp = OrderDict "string option" "rat option" | GetOrderRaises string

datatype cancel_resp = CancelReturns bool | CancelRaises string

record OrderResult =
  success :: bool
  order_id :: "string option"
  order_status :: "string option"
  order_error :: "string option"

datatype place_resp = PlaceReturns OrderResult | PlaceRaises string

record gateway =
  clock :: "rat stream"
  depths :: "depth_resp stream"
  orders :: "(rat \<Rightarrow> get_order_resp) stream"
  cancels :: "cancel_resp stream"
  places :: "place_resp stream"
  uniforms :: "rat stream"

definition time_time :: "gateway \<Rightarrow> rat \<times> gateway" where
  "time_time g = (shd (clock g), g\<lparr>clock := stl (clock g)\<rparr>)"

definition get_depth :: "gateway \<Rightarrow> depth_resp \<times> gateway" where
  "get_depth g = (shd (depths g), g\<lparr>depths := stl (depths g)\<rparr>)"

definition get_order :: "rat \<Rightarrow> gateway \<Rightarrow> get_order_resp \<times> gateway" where
  "get_order qty g = (shd (orders g) qty, g\<lparr>orders := stl (orders g)\<rparr>)"

definition client_cancel_order :: "gateway \<Rightarrow> cancel_resp \<times> gateway" where
  "client_cancel_order g = (shd (cancels g), g\<lparr>cancels := stl (cancels g)\<rparr>)"

definition place_order :: "gateway \<Rightarrow> place_resp \<times> gateway" where
  "place_order g = (shd (places g), g\<lparr>places := stl (places g)\<rparr>)"

definition random_uniform :: "gateway \<Rightarrow> rat \<times> gateway" where
  "random_uniform g = (shd (uniforms g), g\<lparr>uniforms := stl (uniforms g)\<rparr>)"

text \<open>
  \<open>_get_orderbook\<close>: \<open>None\<close> stands for the exception (a failed depth request or an
  empty side of the book); both callers catch it.
\<close>

definition get_orderbook :: "depth_resp \<Rightarrow> (rat \<times> rat) option" where
  "get_orderbook d =
     (case d of
        DepthRaises \<Rightarrow> None
      | Depth bids asks \<Rightarrow>
          if bids = [] \<or> asks = [] then None else Some (fst (hd bids), fst (hd asks)))"

fun starts_with :: "string \<Rightarrow> string \<Rightarrow> bool" where
  "starts_with [] ys = True"
| "starts_with (x # xs) [] = False"
| "starts_with (x # xs) (y # ys) = (x = y \<and> starts_with xs ys)"

fun contains_text :: "string \<Rightarrow> string \<Rightarrow> bool" where
  "contains_text needle [] = (needle = [])"
| "contains_text needle (y # ys) = (starts_with needle (y # ys) \<or> contains_text needle ys)"

text \<open>
  \<open>_get_order_status\<close>, applied to what \<open>client.get_order\<close> delivered: the order
  dictionary (a missing \<open>status\<close> reads \<open>UNKNOWN\<close>, a missing \<open>executedQty\<close> reads 0) or
  an exception with its message.
\<close>

definition get_order_status :: "get_order_resp \<Rightarrow> string \<times> rat" where
  "get_order_status r =
     (case r of
        OrderDict st executedQty \<Rightarrow>
          (case st of Some s \<Rightarrow> s | None \<Rightarrow> ''UNKNOWN'',
           case executedQty of Some q \<Rightarrow> q | None \<Rightarrow> 0)
      | GetOrderRaises error_msg \<Rightarrow>
          if contains_text ''Unknown order'' error_msg
             \<or> contains_text ''Order does not exist'' error_msg
          then (''NOT_FOUND'', 0)
          else (''UNKNOWN'', 0))"

section \<open>The maker loop\<close>

text \<open>
  The local variables of \<open>_execute_maker_loop\<close>, with the gateway they act on. Two
  fields are not variables of the source: \<open>order_qty\<close> is the quantity of the order in
  the live slot (what the exchange knows about \<open>current_order_id\<close>), and \<open>placed\<close> logs
  the quantity and price of every \<open>place_order\<close> call, oldest first. \<open>position_side\<close>
  and \<open>reduce_only\<close> are only forwarded to the gateway and are left out.
\<close>

record loop_state =
  total_filled :: rat
  total_value :: rat
  remaining :: rat
  iterations :: int
  current_order_id :: "string option"
  current_order_price :: rat
  order_qty :: rat
  placed :: "(rat \<times> rat) list"
  gw :: gateway

text \<open>Python truth value of an \<open>Optional[str]\<close>: \<open>None\<close> and the empty string are false.\<close>

definition truthy :: "string option \<Rightarrow> bool" where
  "truthy oid = (case oid of None \<Rightarrow> False | Some s \<Rightarrow> s \<noteq> [])"

text \<open>
  \<open>total_filled += x; total_value += x * current_order_price; remaining -= x\<close>, the
  \<open>NOT_FOUND\<close> variant that takes the whole remainder, and
  \<open>current_order_id = None; current_order_price = Decimal("0")\<close>.
\<close>

definition fold_fill :: "rat \<Rightarrow> loop_state \<Rightarrow> loop_state" where
  "fold_fill x st =
     st\<lparr>total_filled := total_filled st + x,
        total_value := total_value st + x * current_order_price st,
        remaining := remaining st - x\<rparr>"

definition assume_filled :: "loop_state \<Rightarrow> loop_state" where
  "assume_filled st =
     st\<lparr>total_filled := total_filled st + remaining st,
        total_value := total_value st + remaining st * current_order_price st,
        remaining := 0\<rparr>"

definition clear_order :: "loop_state \<Rightarrow> loop_state" where
  "clear_order st = st\<lparr>current_order_id := None, current_order_price := 0\<rparr>"

definition fold_if_positive :: "rat \<Rightarrow> loop_state \<Rightarrow> loop_state" where
  "fold_if_positive filled st = (if 0 < filled then fold_fill filled st else st)"

definition read_clock :: "loop_state \<Rightarrow> rat \<times> loop_state" where
  "read_clock st = (let (t, g) = time_time (gw st) in (t, st\<lparr>gw := g\<rparr>))"

definition read_depth :: "loop_state \<Rightarrow> (rat \<times> rat) option \<times> loop_state" where
  "read_depth st = (let (d, g) = get_depth (gw st) in (get_orderbook d, st\<lparr>gw := g\<rparr>))"

text \<open>
  \<open>self._get_order_status(trading_pair, current_order_id)\<close>. With a false
  \<open>order_id\<close> (\<open>None\<close> or the empty string) \<open>client.get_order\<close> raises its
  \<open>ValueError\<close> before any request is sent, which \<open>_get_order_status\<close> turns into
  \<open>UNKNOWN\<close>.
\<close>

definition query_order :: "loop_state \<Rightarrow> (string \<times> rat) \<times> loop_state" where
  "query_order st =
     (if truthy (current_order_id st)
      then (let (r, g) = get_order (order_qty st) (gw st) in (get_order_status r, st\<lparr>gw := g\<rparr>))
      else ((''UNKNOWN'', 0), st))"

definition cancel_order :: "loop_state \<Rightarrow> cancel_resp \<times> loop_state" where
  "cancel_order st = (let (r, g) = client_cancel_order (gw st) in (r, st\<lparr>gw := g\<rparr>))"

definition place_maker_order :: "rat \<Rightarrow> rat \<Rightarrow> loop_state \<Rightarrow> place_resp \<times> loop_state" where
  "place_maker_order quantity price st =
     (let (r, g) = place_order (gw st)
      in (r, st\<lparr>placed := placed st @ [(quantity, price)], gw := g\<rparr>))"

text \<open>
  How a block of the loop body hands over: \<open>Next\<close> falls through to the following
  block, \<open>Continue\<close> and \<open>Break\<close> are the Python statements, \<open>Raise\<close> is an exception
  that reaches the \<open>except\<close> clause of the engine with its message.
\<close>

datatype flow = Next | Continue | Break | Raise string

text \<open>The cancel with its re-query after a failure; shared text of the two cancel sites.\<close>

definition requery_after_failed_cancel :: "loop_state \<Rightarrow> loop_state" where
  "requery_after_failed_cancel st =
     (let ((status2, filled2), st1) = query_order st;
          st2 = (if status2 = ''FILLED'' \<or> status2 = ''NOT_FOUND''
                 then fold_fill (if 0 < filled2 then filled2 else remaining st1) st1
                 else st1)
      in (clear_order st2)\<lparr>iterations := iterations st2 + 1\<rparr>)"

text \<open>The replace check, lines 369 to 438.\<close>

definition replace_block ::
  "MakerOrderConfig \<Rightarrow> OrderSide \<Rightarrow> rat \<Rightarrow> loop_state \<Rightarrow> flow \<times> loop_state" where
  "replace_block cfg side best_price st =
     (if truthy (current_order_id st)
         \<and> should_replace_order cfg side (current_order_price st) best_price
      then
        (let ((status, filled), st1) = query_order st
         in if status \<in> set [''FILLED'', ''CANCELED'', ''EXPIRED'', ''REJECTED'']
            then (Continue, clear_order (fold_if_positive filled st1))
            else if status = ''NOT_FOUND''
            then (Continue, clear_order (assume_filled st1))
            else
              (case cancel_order st1 of
                 (CancelRaises e, st2) \<Rightarrow> (Raise e, st2)
               | (CancelReturns cancelled, st2) \<Rightarrow>
                   if cancelled
                   then (let st3 = fold_if_positive filled st2
                         in (Next, clear_order (st3\<lparr>iterations := iterations st3 + 1\<rparr>)))
                   else (Continue, requery_after_failed_cancel st2)))
      else (Next, st))"

text \<open>The placement, lines 449 to 484.\<close>

definition place_block :: "rat \<Rightarrow> rat \<Rightarrow> loop_state \<Rightarrow> flow \<times> loop_state" where
  "place_block rounded_remaining best_price st =
     (if current_order_id st = None
      then
        (case place_maker_order rounded_remaining best_price st of
           (PlaceRaises e, st1) \<Rightarrow> (Raise e, st1)
         | (PlaceReturns result, st1) \<Rightarrow>
             if success result
             then (let st2 = st1\<lparr>current_order_id := order_id result,
                                 current_order_price := best_price,
                                 order_qty := rounded_remaining\<rparr>
                   in if order_status result = Some ''REJECTED''
                      then (Continue, clear_order st2)
                      else (Next, st2))
             else (Continue, st1))
      else (Next, st))"

text \<open>
  The wait window, lines 487 to 542. The inner \<open>while\<close> runs as long as the clock says
  so; the fuel bounds the number of polls, and \<open>None\<close> means the window did not end
  within it.
\<close>

fun wait_window ::
  "nat \<Rightarrow> MakerOrderConfig \<Rightarrow> OrderSide \<Rightarrow> rat \<Rightarrow> loop_state \<Rightarrow> loop_state option" where
  "wait_window 0 cfg side order_start st = None"
| "wait_window (Suc n) cfg side order_start st =
     (let (t, st1) = read_clock st
      in if t - order_start < order_timeout cfg
         then
           (let ((status, filled), st2) = query_order st1
            in if status = ''FILLED''
               then Some (clear_order (fold_fill filled st2))
               else if status \<in> set [''CANCELED'', ''EXPIRED'', ''REJECTED'']
               then Some (clear_order (fold_if_positive filled st2))
               else if status = ''NOT_FOUND''
               then Some (clear_order (assume_filled st2))
               else if status = ''PARTIALLY_FILLED''
               then
                 (case read_depth st2 of
                    (None, st3) \<Rightarrow> wait_window n cfg side order_start st3
                  | (Some (new_bid1, new_ask1), st3) \<Rightarrow>
                      if should_replace_order cfg side (current_order_price st3)
                           (if side = SELL then new_ask1 else new_bid1)
                      then Some st3
                      else wait_window n cfg side order_start st3)
               else wait_window n cfg side order_start st2)
         else Some st1)"

text \<open>The single-order timeout, lines 545 to 609.\<close>

definition timeout_block ::
  "MakerOrderConfig \<Rightarrow> rat \<Rightarrow> loop_state \<Rightarrow> flow \<times> loop_state" where
  "timeout_block cfg order_start st =
     (if truthy (current_order_id st)
      then
        (let (t, st0) = read_clock st
         in if order_timeout cfg \<le> t - order_start
            then
              (let ((status, filled), st1) = query_order st0
               in if status = ''NOT_FOUND''
                  then (Continue, clear_order (assume_filled st1))
                  else if status = ''FILLED''
                  then (Continue, clear_order (fold_fill filled st1))
                  else
                    (case cancel_order st1 of
                       (CancelRaises e, st2) \<Rightarrow> (Raise e, st2)
                     | (CancelReturns cancelled, st2) \<Rightarrow>
                         if \<not> cancelled
                         then (Continue, requery_after_failed_cancel st2)
                         else (let st3 = fold_if_positive filled st2
                               in (Next, clear_order (st3\<lparr>iterations := iterations st3 + 1\<rparr>)))))
            else (Next, st0))
      else (Next, st))"

text \<open>One pass through the body of the outer \<open>while\<close>, lines 342 to 609.\<close>

definition loop_pass ::
  "nat \<Rightarrow> MakerOrderConfig \<Rightarrow> string \<Rightarrow> OrderSide \<Rightarrow> rat \<Rightarrow> loop_state
   \<Rightarrow> (flow \<times> loop_state) option" where
  "loop_pass n cfg trading_pair side start_time st =
     (let (t, st1) = read_clock st
      in if total_timeout cfg < t - start_time
         then Some (Break, st1)
         else
           (case read_depth st1 of
              (None, st2) \<Rightarrow> Some (Continue, st2)
            | (Some (bid1, ask1), st2) \<Rightarrow>
                (let best_price = round_price cfg trading_pair (if side = SELL then ask1 else bid1)
                 in case replace_block cfg side best_price st2 of
                      (Next, st3) \<Rightarrow>
                        (let rounded_remaining = round_quantity trading_pair (remaining st3)
                         in if rounded_remaining = 0
                            then Some (Break, st3)
                            else
                              (case place_block rounded_remaining best_price st3 of
                                 (Next, st4) \<Rightarrow>
                                   (let (order_start, st5) = read_clock st4
                                    in case wait_window n cfg side order_start st5 of
                                         None \<Rightarrow> None
                                       | Some st6 \<Rightarrow> Some (timeout_block cfg order_start st6))
                               | (fl, st4) \<Rightarrow> Some (fl, st4)))
                    | (fl, st3) \<Rightarrow> Some (fl, st3))))"

text \<open>
  The outer \<open>while remaining > 0 and iterations < max_iterations\<close>. The result is the
  message of the exception that left the loop, if any, with the final variables;
  \<open>None\<close> means the loop did not end within the fuel.
\<close>

fun maker_loop ::
  "nat \<Rightarrow> MakerOrderConfig \<Rightarrow> string \<Rightarrow> OrderSide \<Rightarrow> rat \<Rightarrow> loop_state
   \<Rightarrow> (string option \<times> loop_state) option" where
  "maker_loop 0 cfg trading_pair side start_time st = None"
| "maker_loop (Suc n) cfg trading_pair side start_time st =
     (if 0 < remaining st \<and> iterations st < max_iterations cfg
      then
        (case loop_pass n cfg trading_pair side start_time st of
           None \<Rightarrow> None
         | Some (Raise e, st') \<Rightarrow> Some (Some e, st')
         | Some (Break, st') \<Rightarrow> Some (None, st')
         | Some (Continue, st') \<Rightarrow> maker_loop n cfg trading_pair side start_time st'
         | Some (Next, st') \<Rightarrow> maker_loop n cfg trading_pair side start_time st')
      else Some (None, st))"

section \<open>Result construction\<close>

datatype MakerExecutionStatus = SUCCESS | PARTIAL | FAILED | SKIPPED

record MakerExecutionResult =
  r_symbol :: string
  status :: MakerExecutionStatus
  target_quantity :: rat
  filled_quantity :: rat
  average_price :: rat
  r_iterations :: int
  elapsed_seconds :: rat
  error :: "string option"

text \<open>
  A division of two \<open>Decimal\<close>s raises when the divisor is zero; the exception is a
  value of the model, so that a theorem can say it does not occur.
\<close>

datatype py_error = DivisionByZero

definition dec_div :: "rat \<Rightarrow> rat \<Rightarrow> py_error + rat" where
  "dec_div a b = (if b = 0 then Inl DivisionByZero else Inr (a / b))"

text \<open>
  \<open>total_value / total_filled if total_filled > 0 else Decimal("0")\<close> and
  \<open>total_filled / target_quantity if target_quantity > 0 else Decimal("0")\<close>, as they
  occur in \<open>_execute_maker_loop\<close> and in \<open>execute_delta\<close>, and the chain that picks the
  outcome.
\<close>

definition average_price_of :: "rat \<Rightarrow> rat \<Rightarrow> py_error + rat" where
  "average_price_of tv tf = (if 0 < tf then dec_div tv tf else Inr 0)"

definition fill_ratio_of :: "rat \<Rightarrow> rat \<Rightarrow> py_error + rat" where
  "fill_ratio_of tf target = (if 0 < target then dec_div tf target else Inr 0)"

definition classify :: "MakerOrderConfig \<Rightarrow> rat \<Rightarrow> rat \<Rightarrow> MakerExecutionStatus" where
  "classify cfg fill_ratio tf =
     (if partial_fill_threshold cfg \<le> fill_ratio then SUCCESS
      else if 0 < tf then PARTIAL
      else FAILED)"

text \<open>The \<open>except\<close> clause of \<open>_execute_maker_loop\<close>, lines 611 to 629.\<close>

definition failed_result ::
  "string \<Rightarrow> rat \<Rightarrow> rat \<Rightarrow> string \<Rightarrow> loop_state
   \<Rightarrow> (py_error + MakerExecutionResult) \<times> loop_state" where
  "failed_result trading_pair target start_time e st =
     (let st1 = (if truthy (current_order_id st) then snd (cancel_order st) else st)
      in case average_price_of (total_value st1) (total_filled st1) of
           Inl err \<Rightarrow> (Inl err, st1)
         | Inr avg \<Rightarrow>
             (let (t, st2) = read_clock st1
              in (Inr \<lparr> r_symbol = trading_pair, status = FAILED, target_quantity = target,
                        filled_quantity = total_filled st2, average_price = avg,
                        r_iterations = iterations st2, elapsed_seconds = t - start_time,
                        error = Some e \<rparr>, st2)))"

text \<open>The regular end of \<open>_execute_maker_loop\<close>, lines 631 to 657.\<close>

definition regular_result ::
  "MakerOrderConfig \<Rightarrow> string \<Rightarrow> rat \<Rightarrow> rat \<Rightarrow> loop_state
   \<Rightarrow> (py_error + MakerExecutionResult) \<times> loop_state" where
  "regular_result cfg trading_pair target start_time st =
     (let (t, st1) = read_clock st
      in case fill_ratio_of (total_filled st1) target of
           Inl err \<Rightarrow> (Inl err, st1)
         | Inr fill_ratio \<Rightarrow>
             (case average_price_of (total_value st1) (total_filled st1) of
                Inl err \<Rightarrow> (Inl err, st1)
              | Inr avg_price \<Rightarrow>
                  (Inr \<lparr> r_symbol = trading_pair,
                         status = classify cfg fill_ratio (total_filled st1),
                         target_quantity = target, filled_quantity = total_filled st1,
                         average_price = avg_price, r_iterations = iterations st1,
                         elapsed_seconds = t - start_time, error = None \<rparr>, st1)))"

definition initial_state :: "rat \<Rightarrow> gateway \<Rightarrow> loop_state" where
  "initial_state target g =
     \<lparr> total_filled = 0, total_value = 0, remaining = target, iterations = 0,
       current_order_id = None, current_order_price = 0, order_qty = 0, placed = [],
       gw = g \<rparr>"

text \<open>
  \<open>_execute_maker_loop\<close>: the result (or the exception that leaves the method) and
  the final state, whose \<open>placed\<close> and \<open>gw\<close> fields tell what was sent to the exchange
  and what is left of its behaviour.
\<close>

definition execute_maker_loop ::
  "nat \<Rightarrow> MakerOrderConfig \<Rightarrow> string \<Rightarrow> OrderSide \<Rightarrow> rat \<Rightarrow> gateway
   \<Rightarrow> ((py_error + MakerExecutionResult) \<times> loop_state) option" where
  "execute_maker_loop n cfg trading_pair side target g =
     (let (start_time, g1) = time_time g
      in case maker_loop n cfg trading_pair side start_time (initial_state target g1) of
           None \<Rightarrow> None
         | Some (Some e, st) \<Rightarrow> Some (failed_result trading_pair target start_time e st)
         | Some (None, st) \<Rightarrow> Some (regular_result cfg trading_pair target start_time st))"

section \<open>Order splitting\<close>

text \<open>
  \<open>_split_order\<close>. The Python floats \<open>order_value\<close>, \<open>remaining_value\<close> and
  \<open>split_value\<close> are embedded as exact rationals, and \<open>Decimal(str(x))\<close> as the
  identity: binary rounding is not modelled. A draw of \<open>random.uniform\<close> is the next
  element of the gateway's \<open>uniforms\<close> stream. \<open>None\<close> means the \<open>while\<close> did not end
  within the fuel.
\<close>

fun split_loop ::
  "nat \<Rightarrow> MakerOrderConfig \<Rightarrow> string \<Rightarrow> rat \<Rightarrow> rat \<Rightarrow> rat list \<Rightarrow> gateway
   \<Rightarrow> ((py_error + rat list) \<times> gateway) option" where
  "split_loop 0 cfg trading_pair price remaining_value split_quantities g = None"
| "split_loop (Suc n) cfg trading_pair price remaining_value split_quantities g =
     (if 0 < remaining_value
      then
        (let (split_value, g1) =
               (if remaining_value \<le> split_order_max_value cfg then (remaining_value, g)
                else if split_order_random cfg then random_uniform g
                else ((split_order_min_value cfg + split_order_max_value cfg) / 2, g))
         in case dec_div split_value price of
              Inl err \<Rightarrow> Some (Inl err, g1)
            | Inr q \<Rightarrow>
                (let split_qty = round_quantity trading_pair q
                 in if 0 < split_qty
                    then
                      (case dec_div remaining_value price of
                         Inl err \<Rightarrow> Some (Inl err, g1)
                       | Inr remaining_qty \<Rightarrow>
                           (let split_qty2 =
                                  (if remaining_qty < split_qty
                                   then round_quantity trading_pair remaining_qty
                                   else split_qty)
                            in if 0 < split_qty2
                               then split_loop n cfg trading_pair price
                                      (remaining_value - split_qty2 * price)
                                      (split_quantities @ [split_qty2]) g1
                               else split_loop n cfg trading_pair price
                                      remaining_value split_quantities g1))
                    else Some (Inr split_quantities, g1)))
      else Some (Inr split_quantities, g))"

definition split_order ::
  "nat \<Rightarrow> MakerOrderConfig \<Rightarrow> string \<Rightarrow> rat \<Rightarrow> rat \<Rightarrow> gateway
   \<Rightarrow> ((py_error + rat list) \<times> gateway) option" where
  "split_order n cfg trading_pair quantity price g =
     (if \<not> split_order_enabled cfg then Some (Inr [quantity], g)
      else
        (let order_value = quantity * price
         in if order_value < split_order_threshold cfg then Some (Inr [quantity], g)
            else
              (case split_loop n cfg trading_pair price order_value [] g of
                 None \<Rightarrow> None
               | Some (Inl err, g1) \<Rightarrow> Some (Inl err, g1)
               | Some (Inr split_quantities, g1) \<Rightarrow>
                   Some (Inr (if split_quantities = [] then [quantity] else split_quantities),
                         g1))))"

section \<open>Executing one delta\<close>

record PositionDelta =
  symbol :: string
  target :: rat
  current :: rat
  delta :: rat
  delta_value_usd :: rat

text \<open>
  The \<open>for\<close> loop of \<open>execute_delta\<close> over the clips, lines 713 to 736: the running
  totals are filled quantity, value and iterations; the list \<open>sent\<close> collects the placements of
  all clips.
\<close>

fun run_clips ::
  "nat \<Rightarrow> MakerOrderConfig \<Rightarrow> string \<Rightarrow> OrderSide \<Rightarrow> rat list \<Rightarrow> rat \<times> rat \<times> int
   \<Rightarrow> (rat \<times> rat) list \<Rightarrow> gateway
   \<Rightarrow> ((py_error + rat \<times> rat \<times> int) \<times> (rat \<times> rat) list \<times> gateway) option" where
  "run_clips n cfg trading_pair side [] acc sent g = Some (Inr acc, sent, g)"
| "run_clips n cfg trading_pair side (split_qty # rest) acc sent g =
     (case execute_maker_loop n cfg trading_pair side split_qty g of
        None \<Rightarrow> None
      | Some (Inl err, st) \<Rightarrow> Some (Inl err, sent @ placed st, gw st)
      | Some (Inr result, st) \<Rightarrow>
          (let acc2 = (fst acc + filled_quantity result,
                       fst (snd acc) + filled_quantity result * average_price result,
                       snd (snd acc) + r_iterations result)
           in if status result = FAILED
              then Some (Inr acc2, sent @ placed st, gw st)
              else run_clips n cfg trading_pair side rest acc2 (sent @ placed st) (gw st)))"

text \<open>
  The result of the early return of \<open>execute_delta\<close>, lines 677 to 686; the Chinese
  text of its \<open>error\<close> field is given in English.
\<close>

definition skipped_result :: "string \<Rightarrow> rat \<Rightarrow> MakerExecutionResult" where
  "skipped_result trading_pair quantity =
     \<lparr> r_symbol = trading_pair, status = SKIPPED, target_quantity = quantity,
       filled_quantity = 0, average_price = 0, r_iterations = 0, elapsed_seconds = 0,
       error = Some ''quantity below the minimum order size'' \<rparr>"

text \<open>The summary of \<open>execute_delta\<close>, lines 739 to 765.\<close>

definition summary_result ::
  "MakerOrderConfig \<Rightarrow> string \<Rightarrow> rat \<Rightarrow> rat \<Rightarrow> rat \<times> rat \<times> int
   \<Rightarrow> py_error + MakerExecutionResult" where
  "summary_result cfg trading_pair rounded_qty elapsed acc =
     (case fill_ratio_of (fst acc) rounded_qty of
        Inl err \<Rightarrow> Inl err
      | Inr fill_ratio \<Rightarrow>
          (case average_price_of (fst (snd acc)) (fst acc) of
             Inl err \<Rightarrow> Inl err
           | Inr avg_price \<Rightarrow>
               Inr \<lparr> r_symbol = trading_pair, status = classify cfg fill_ratio (fst acc),
                     target_quantity = rounded_qty, filled_quantity = fst acc,
                     average_price = avg_price, r_iterations = snd (snd acc),
                     elapsed_seconds = elapsed, error = None \<rparr>))"

text \<open>
  \<open>execute_delta\<close>: the result or the exception, the placements sent to the exchange,
  and the rest of the gateway.
\<close>

definition execute_delta ::
  "nat \<Rightarrow> MakerOrderConfig \<Rightarrow> PositionDelta \<Rightarrow> gateway
   \<Rightarrow> ((py_error + MakerExecutionResult) \<times> (rat \<times> rat) list \<times> gateway) option" where
  "execute_delta n cfg d g =
     (let trading_pair = get_trading_pair (symbol d);
          quantity = \<bar>delta d\<bar>;
          rounded_qty = round_quantity trading_pair quantity
      in if rounded_qty = 0
         then Some (Inr (skipped_result trading_pair quantity), [], g)
         else
           (let (book, g1) = get_depth g;
                current_price =
                  (case get_orderbook book of
                     Some (bid1, ask1) \<Rightarrow> if 0 < delta d then ask1 else bid1
                   | None \<Rightarrow> 0)
            in case (if 0 < current_price
                     then split_order n cfg trading_pair rounded_qty current_price g1
                     else Some (Inr [rounded_qty], g1)) of
                 None \<Rightarrow> None
               | Some (Inl err, g2) \<Rightarrow> Some (Inl err, [], g2)
               | Some (Inr split_quantities, g2) \<Rightarrow>
                   (let (start_time, g3) = time_time g2;
                        side = (if 0 < delta d then SELL else BUY)
                    in case run_clips n cfg trading_pair side split_quantities (0, 0, 0) [] g3 of
                         None \<Rightarrow> None
                       | Some (Inl err, sent, g4) \<Rightarrow> Some (Inl err, sent, g4)
                       | Some (Inr acc, sent, g4) \<Rightarrow>
                           (let (t, g5) = time_time g4
                            in Some (summary_result cfg trading_pair rounded_qty
                                       (t - start_time) acc, sent, g5)))))"

section \<open>The delta calculator\<close>

record TargetHedgePosition =
  t_symbol :: string
  amount :: rat
  value_usd :: rat
  price :: rat
  weight :: rat

record Position =
  p_symbol :: string
  position_side :: string
  quantity :: rat
  entry_price :: rat
  mark_price :: rat
  unrealized_pnl :: rat
  leverage :: int
  margin_type :: string
  isolated_margin :: rat

text \<open>
  \<open>PositionManager.calculate_deltas\<close>. The target dictionary is the list of its items
  in iteration order, the current positions and the output are maps. A \<open>Position\<close> is a
  dataclass without \<open>__bool__\<close> or \<open>__len__\<close>, so \<open>if current_pos:\<close> tests for
  \<open>None\<close> only.
\<close>

definition position_delta ::
  "string \<Rightarrow> TargetHedgePosition \<Rightarrow> Position option \<Rightarrow> PositionDelta" where
  "position_delta sy tgt current_pos =
     (let current_amount = (case current_pos of None \<Rightarrow> 0 | Some pos \<Rightarrow> \<bar>quantity pos\<bar>);
          dl = amount tgt - current_amount;
          delta_value = dl * price tgt
      in \<lparr> symbol = sy, target = amount tgt, current = current_amount, delta = dl,
           delta_value_usd = delta_value \<rparr>)"

fun calculate_deltas_loop ::
  "(string \<times> TargetHedgePosition) list \<Rightarrow> (string \<rightharpoonup> Position)
   \<Rightarrow> (string \<rightharpoonup> PositionDelta) \<Rightarrow> (string \<rightharpoonup> PositionDelta)" where
  "calculate_deltas_loop [] current_positions deltas = deltas"
| "calculate_deltas_loop ((sy, tgt) # rest) current_positions deltas =
     calculate_deltas_loop rest current_positions
       (deltas(sy \<mapsto> position_delta sy tgt (current_positions sy)))"

definition calculate_deltas ::
  "(string \<times> TargetHedgePosition) list \<Rightarrow> (string \<rightharpoonup> Position)
   \<Rightarrow> (string \<rightharpoonup> PositionDelta)" where
  "calculate_deltas target_positions current_positions =
     calculate_deltas_loop target_positions current_positions Map.empty"

section \<open>Concrete inputs\<close>

definition sol_target :: TargetHedgePosition where
  "sol_target = \<lparr> t_symbol = ''SOL'', amount = 12, value_usd = 1200, price = 100, weight = 1 \<rparr>"

definition eth_position :: Position where
  "eth_position = \<lparr> p_symbol = ''ETHUSDT'', position_side = ''SHORT'', quantity = - 2,
     entry_price = 3000, mark_price = 3000, unrealized_pnl = 0, leverage = 1,
     margin_type = ''cross'', isolated_margin = 0 \<rparr>"

section \<open>Predicates of the claims about order status\<close>

text \<open>
  What the claims say of a state \<open>st'\<close> that follows \<open>st\<close>: the order was taken as
  filled for the whole remainder at the resting price; and the outcome after a failed
  cancel was decided by the status query that follows it, which is read from the state
  \<open>st2\<close> right after the cancel.
\<close>

definition treated_as_filled :: "loop_state \<Rightarrow> loop_state \<Rightarrow> bool" where
  "treated_as_filled st st' =
     (total_filled st' = total_filled st + remaining st
      \<and> total_value st' = total_value st + remaining st * current_order_price st
      \<and> remaining st' = 0
      \<and> current_order_id st' = None
      \<and> current_order_price st' = 0)"


text \<open>
  A SOL book with best bid 99.99 and best ask 100.00, an accepted placement, status
  answers, and gateways built from them: one where the first order is filled for 0.96
  and cancelled at its timeout and the next is filled completely, one whose clock
  jumps past the total timeout, one that no longer knows the order, and one where the
  cancel fails because the order has just been filled. \<open>live_state\<close> is a loop state
  with an order of 1 SOL resting at 100.00.
\<close>

definition sol_book :: depth_resp where
  "sol_book = Depth [(9999 / 100, 1)] [(100, 1)]"

definition accepted :: "string \<Rightarrow> place_resp" where
  "accepted oid =
     PlaceReturns \<lparr> success = True, order_id = Some oid, order_status = Some ''NEW'',
                    order_error = None \<rparr>"

definition reports :: "string \<Rightarrow> rat \<Rightarrow> rat \<Rightarrow> get_order_resp" where
  "reports s f q = OrderDict (Some s) (Some f)"

definition full_fill :: "rat \<Rightarrow> get_order_resp" where
  "full_fill q = OrderDict (Some ''FILLED'') (Some q)"

definition gw_small_remainder :: gateway where
  "gw_small_remainder =
     \<lparr> clock = 0 ## 0 ## 0 ## 6 ## 6 ## 6 ## 6 ## sconst (62 / 10),
       depths = sconst sol_book,
       orders = reports ''PARTIALLY_FILLED'' (96 / 100) ## sconst full_fill,
       cancels = sconst (CancelReturns True),
       places = sconst (accepted ''1''),
       uniforms = sconst 0 \<rparr>"

definition gw_timed_out :: gateway where
  "gw_timed_out =
     \<lparr> clock = 0 ## sconst 1000,
       depths = sconst sol_book,
       orders = sconst (reports ''NEW'' 0),
       cancels = sconst (CancelReturns True),
       places = sconst (accepted ''1''),
       uniforms = sconst 0 \<rparr>"

definition tiny_delta :: PositionDelta where
  "tiny_delta = \<lparr> symbol = ''SOL'', target = 12, current = 11996 / 1000, delta = 4 / 1000,
                  delta_value_usd = 4 / 10 \<rparr>"

definition result_of ::
  "((py_error + MakerExecutionResult) \<times> loop_state) option \<Rightarrow> MakerExecutionResult option" where
  "result_of x = (case x of Some (Inr r, st) \<Rightarrow> Some r | _ \<Rightarrow> None)"

definition placed_of ::
  "((py_error + MakerExecutionResult) \<times> loop_state) option \<Rightarrow> (rat \<times> rat) list option" where
  "placed_of x = map_option (placed \<circ> snd) x"

definition gw_unknown_order :: gateway where
  "gw_unknown_order =
     \<lparr> clock = sconst 1,
       depths = sconst sol_book,
       orders = sconst (\<lambda>q. GetOrderRaises ''Unknown order sent.''),
       cancels = sconst (CancelReturns False),
       places = sconst (accepted ''2''),
       uniforms = sconst 0 \<rparr>"

definition gw_cancel_race :: gateway where
  "gw_cancel_race =
     \<lparr> clock = sconst 1,
       depths = sconst sol_book,
       orders = reports ''NEW'' 0 ## sconst full_fill,
       cancels = sconst (CancelReturns False),
       places = sconst (accepted ''2''),
       uniforms = sconst 0 \<rparr>"

definition live_state :: "gateway \<Rightarrow> loop_state" where
  "live_state g =
     \<lparr> total_filled = 0, total_value = 0, remaining = 1, iterations = 0,
       current_order_id = Some ''1'', current_order_price = 100, order_qty = 1,
       placed = [(1, 100)], gw = g \<rparr>"


text \<open>The default configuration with the random clip values switched off.\<close>

definition fixed_split_config :: MakerOrderConfig where
  "fixed_split_config = default_config\<lparr>split_order_random := False\<rparr>"

section \<open>Well-behaved gateways and the loop invariant\<close>

text \<open>
  \<open>on_grid p x\<close>: \<open>x\<close> is a multiple of the quantity step \<open>10^-p\<close>. A gateway is
  honest at precision \<open>p\<close> when every status answer, asked about an order of any
  non-negative quantity \<open>q\<close> on the grid, reports an executed quantity that is at most
  \<open>q\<close> and on the grid. \<open>loop_inv\<close> is what every pass of the maker loop keeps for
  such a gateway and a target \<open>tgt\<close>.
\<close>

definition on_grid :: "nat \<Rightarrow> rat \<Rightarrow> bool" where
  "on_grid p x = (of_int \<lfloor>x * 10 ^ p\<rfloor> = x * 10 ^ p)"

definition honest_fill :: "nat \<Rightarrow> rat \<Rightarrow> string \<times> rat \<Rightarrow> bool" where
  "honest_fill p q sf = (snd sf \<le> q \<and> on_grid p (snd sf))"

definition honest_gateway :: "nat \<Rightarrow> gateway \<Rightarrow> bool" where
  "honest_gateway p g =
     (\<forall>r \<in> sset (orders g). \<forall>q. 0 \<le> q \<and> on_grid p q
        \<longrightarrow> honest_fill p q (get_order_status (r q)))"

definition loop_inv :: "nat \<Rightarrow> rat \<Rightarrow> loop_state \<Rightarrow> bool" where
  "loop_inv p tgt st =
     (total_filled st + remaining st = tgt
      \<and> 0 \<le> remaining st
      \<and> on_grid p (remaining st)
      \<and> (current_order_id st \<noteq> None
           \<longrightarrow> 0 \<le> order_qty st \<and> order_qty st \<le> remaining st \<and> on_grid p (order_qty st))
      \<and> honest_gateway p (gw st))"

text \<open>
  Three more gateways: the first order is filled for 0.004 (less than a step) and
  cancelled, the next one completely; every answer says \<open>FILLED\<close> 2, whatever the
  order; and an honest one that fills 0.96 of the first order (or all of a smaller one)
  and the next completely.
\<close>

definition gw_odd_lot :: gateway where
  "gw_odd_lot =
     \<lparr> clock = 0 ## 0 ## 0 ## 6 ## 6 ## 6 ## 6 ## sconst (62 / 10),
       depths = sconst sol_book,
       orders = reports ''PARTIALLY_FILLED'' (4 / 1000) ## sconst full_fill,
       cancels = sconst (CancelReturns True),
       places = sconst (accepted ''1''),
       uniforms = sconst 0 \<rparr>"

definition gw_over_report :: gateway where
  "gw_over_report =
     \<lparr> clock = sconst 0,
       depths = sconst sol_book,
       orders = sconst (reports ''FILLED'' 2),
       cancels = sconst (CancelReturns True),
       places = sconst (accepted ''1''),
       uniforms = sconst 0 \<rparr>"

definition part_fill :: "rat \<Rightarrow> get_order_resp" where
  "part_fill q = OrderDict (Some ''PARTIALLY_FILLED'') (Some (min q (96 / 100)))"

definition gw_honest :: gateway where
  "gw_honest =
     \<lparr> clock = 0 ## 0 ## 0 ## 6 ## 6 ## 6 ## 6 ## sconst (62 / 10),
       depths = sconst sol_book,
       orders = part_fill ## sconst full_fill,
       cancels = sconst (CancelReturns True),
       places = sconst (accepted ''1''),
       uniforms = sconst 0 \<rparr>"

section \<open>Properties of rounding and of the replace decision\<close>

lemma floor_rat_numeral [simp]:
  "\<lfloor>(numeral a :: rat) / numeral b\<rfloor> = numeral a div numeral b"
  using floor_divide_of_int_eq [of "numeral a" "numeral b", where ?'a = rat] by simp

text \<open>
  C2: for a resting price \<open>p > 0\<close> and a best price \<open>b\<close>: on the sell side the
  decision is true whenever \<open>b > p\<close>, whatever the tolerance, and false whenever
  \<open>b < p\<close> with \<open>|b - p| / p\<close> strictly below the tolerance; on the buy side it is
  true whenever \<open>b < p\<close>; on either side it is true whenever \<open>|b - p| / p\<close> exceeds the
  tolerance.
\<close>

theorem should_replace_order_rule:
  assumes "0 < p"
  shows "(p < b \<longrightarrow> should_replace_order cfg SELL p b)
       \<and> (b < p \<and> \<bar>b - p\<bar> / p < price_tolerance cfg \<longrightarrow> \<not> should_replace_order cfg SELL p b)
       \<and> (b < p \<longrightarrow> should_replace_order cfg BUY p b)
       \<and> (price_tolerance cfg < \<bar>b - p\<bar> / p \<longrightarrow> should_replace_order cfg side p b)"
  using assms by (auto simp: should_replace_order_def Let_def)

theorem should_replace_order_rule_witness:
  "should_replace_order default_config SELL 100 (10002 / 100)
   \<and> \<not> should_replace_order default_config SELL 100 (9999 / 100)
   \<and> should_replace_order default_config BUY 100 (9999 / 100)
   \<and> should_replace_order default_config BUY 100 (101)"
  using should_replace_order_rule [of 100 "10002 / 100" default_config BUY]
        should_replace_order_rule [of 100 "9999 / 100" default_config BUY]
        should_replace_order_rule [of 100 101 default_config BUY]
  by (simp add: default_config_def)

text \<open>
  C6: the claim says the rounding function returns the floor of the quantity at the
  configured precision. The code rounds half to even instead: \<open>12.346\<close> SOL becomes
  \<open>12.35\<close>, above the input, where the floor is \<open>12.34\<close>. The scenario of the claim,
  \<open>12.345\<close>, is a tie that happens to go down to \<open>12.34\<close>.
\<close>

theorem round_quantity_rounds_up:
  "round_quantity ''SOLUSDT'' (12346 / 1000) = 1235 / 100
   \<and> floor_quantity_spec 2 (1 / 100) (12346 / 1000) = 1234 / 100
   \<and> 12346 / 1000 < round_quantity ''SOLUSDT'' (12346 / 1000)
   \<and> round_quantity ''SOLUSDT'' (12345 / 1000) = 1234 / 100"
  by (simp add: round_quantity_def round_quantity_at_def quantity_precision_def
      min_quantity_def QUANTITY_PRECISION_def MIN_QUANTITY_def floor_quantity_spec_def
      to_integral_value_def Let_def)

section \<open>The delta calculator covers exactly the target symbols\<close>

lemma calculate_deltas_loop_dom:
  "dom (calculate_deltas_loop tps cur ds) = dom ds \<union> fst ` set tps"
proof (induction tps arbitrary: ds)
  case Nil
  then show ?case by simp
next
  case (Cons a rest)
  obtain sy tgt where a: "a = (sy, tgt)" by (cases a)
  have "dom (calculate_deltas_loop (a # rest) cur ds)
        = dom (ds(sy \<mapsto> position_delta sy tgt (cur sy))) \<union> fst ` set rest"
    unfolding a calculate_deltas_loop.simps by (rule Cons.IH)
  also have "\<dots> = dom ds \<union> fst ` set (a # rest)"
    using a by simp
  finally show ?case .
qed

lemma calculate_deltas_loop_other:
  "s \<notin> fst ` set tps \<Longrightarrow> calculate_deltas_loop tps cur ds s = ds s"
  by (induction tps arbitrary: ds) auto

lemma calculate_deltas_loop_lookup:
  "distinct (map fst tps) \<Longrightarrow> (s, t) \<in> set tps \<Longrightarrow>
   calculate_deltas_loop tps cur ds s = Some (position_delta s t (cur s))"
proof (induction tps arbitrary: ds)
  case Nil
  then show ?case by simp
next
  case (Cons a rest)
  obtain sy tgt where a: "a = (sy, tgt)" by (cases a)
  show ?case
  proof (cases "(s, t) \<in> set rest")
    case True
    with Cons a show ?thesis by simp
  next
    case False
    with Cons.prems a have eq: "s = sy" "t = tgt" by auto
    from Cons.prems(1) a have "sy \<notin> fst ` set rest" by simp
    then show ?thesis using eq a by (simp add: calculate_deltas_loop_other)
  qed
qed

text \<open>
  C9: the output of \<open>calculate_deltas\<close> has exactly the keys of the target map (a
  dictionary, so its items have distinct keys): a symbol that only has a current
  position gets no delta, and a target symbol without a current position gets current
  amount 0 and delta equal to the target amount.
\<close>

theorem calculate_deltas_keys:
  assumes "distinct (map fst target_positions)"
  shows "dom (calculate_deltas target_positions current_positions) = fst ` set target_positions
       \<and> (\<forall>s. s \<in> dom current_positions \<and> s \<notin> fst ` set target_positions
              \<longrightarrow> calculate_deltas target_positions current_positions s = None)
       \<and> (\<forall>(s, t) \<in> set target_positions. current_positions s = None
              \<longrightarrow> calculate_deltas target_positions current_positions s
                  = Some \<lparr> symbol = s, target = amount t, current = 0, delta = amount t,
                           delta_value_usd = amount t * price t \<rparr>)"
proof (intro conjI)
  show "dom (calculate_deltas target_positions current_positions) = fst ` set target_positions"
    by (simp add: calculate_deltas_def calculate_deltas_loop_dom)
  show "\<forall>s. s \<in> dom current_positions \<and> s \<notin> fst ` set target_positions
              \<longrightarrow> calculate_deltas target_positions current_positions s = None"
    by (simp add: calculate_deltas_def calculate_deltas_loop_other)
  show "\<forall>(s, t) \<in> set target_positions. current_positions s = None
              \<longrightarrow> calculate_deltas target_positions current_positions s
                  = Some \<lparr> symbol = s, target = amount t, current = 0, delta = amount t,
                           delta_value_usd = amount t * price t \<rparr>"
    using assms
    by (auto simp: calculate_deltas_def calculate_deltas_loop_lookup position_delta_def Let_def)
qed

theorem calculate_deltas_keys_witness:
  "distinct (map fst [(''SOL'', sol_target)])
   \<and> dom (calculate_deltas [(''SOL'', sol_target)] (map_of [(''ETH'', eth_position)])) = {''SOL''}
   \<and> calculate_deltas [(''SOL'', sol_target)] (map_of [(''ETH'', eth_position)]) ''ETH'' = None
   \<and> calculate_deltas [(''SOL'', sol_target)] (map_of [(''ETH'', eth_position)]) ''SOL''
       = Some \<lparr> symbol = ''SOL'', target = 12, current = 0, delta = 12, delta_value_usd = 1200 \<rparr>"
  using calculate_deltas_keys [of "[(''SOL'', sol_target)]" "map_of [(''ETH'', eth_position)]"]
  by (simp add: sol_target_def)

section \<open>Result construction and outcome\<close>

lemma average_price_of_safe:
  "\<exists>avg. average_price_of tv tf = Inr avg \<and> (tf = 0 \<longrightarrow> avg = 0)"
  by (simp add: average_price_of_def dec_div_def)

lemma average_price_of_nonpos: "tf \<le> 0 \<Longrightarrow> average_price_of tv tf = Inr 0"
  by (simp add: average_price_of_def)

lemma fill_ratio_of_safe:
  "\<exists>r. fill_ratio_of tf tgt = Inr r \<and> (tgt = 0 \<longrightarrow> r = 0)"
  by (simp add: fill_ratio_of_def dec_div_def)

lemma fill_ratio_of_eq:
  "fill_ratio_of tf tgt = Inr (if 0 < tgt then tf / tgt else 0)"
  by (simp add: fill_ratio_of_def dec_div_def)

lemma average_price_of_eq:
  "average_price_of tv tf = Inr (if 0 < tf then tv / tf else 0)"
  by (simp add: average_price_of_def dec_div_def)

lemma read_clock_fields [simp]:
  "total_filled (snd (read_clock st)) = total_filled st"
  "total_value (snd (read_clock st)) = total_value st"
  "remaining (snd (read_clock st)) = remaining st"
  "iterations (snd (read_clock st)) = iterations st"
  "current_order_id (snd (read_clock st)) = current_order_id st"
  "current_order_price (snd (read_clock st)) = current_order_price st"
  "order_qty (snd (read_clock st)) = order_qty st"
  "placed (snd (read_clock st)) = placed st"
  by (simp_all add: read_clock_def time_time_def)

lemma cancel_order_fields [simp]:
  "total_filled (snd (cancel_order st)) = total_filled st"
  "total_value (snd (cancel_order st)) = total_value st"
  "remaining (snd (cancel_order st)) = remaining st"
  "iterations (snd (cancel_order st)) = iterations st"
  "current_order_id (snd (cancel_order st)) = current_order_id st"
  "current_order_price (snd (cancel_order st)) = current_order_price st"
  "order_qty (snd (cancel_order st)) = order_qty st"
  "placed (snd (cancel_order st)) = placed st"
  by (simp_all add: cancel_order_def client_cancel_order_def)

lemma regular_result_eq:
  "regular_result cfg tp tgt start st =
     (Inr \<lparr> r_symbol = tp,
            status = classify cfg (if 0 < tgt then total_filled st / tgt else 0) (total_filled st),
            target_quantity = tgt, filled_quantity = total_filled st,
            average_price = (if 0 < total_filled st then total_value st / total_filled st else 0),
            r_iterations = iterations st,
            elapsed_seconds = fst (read_clock st) - start, error = None \<rparr>,
      snd (read_clock st))"
  by (simp add: regular_result_def fill_ratio_of_eq average_price_of_eq split_beta)

lemma failed_result_eq:
  "failed_result tp tgt start e st =
     (let st1 = (if truthy (current_order_id st) then snd (cancel_order st) else st)
      in (Inr \<lparr> r_symbol = tp, status = FAILED, target_quantity = tgt,
                filled_quantity = total_filled st,
                average_price = (if 0 < total_filled st then total_value st / total_filled st else 0),
                r_iterations = iterations st,
                elapsed_seconds = fst (read_clock st1) - start, error = Some e \<rparr>,
          snd (read_clock st1)))"
  by (simp add: failed_result_def average_price_of_eq split_beta Let_def)

lemma summary_result_eq:
  "summary_result cfg tp rq el acc =
     Inr \<lparr> r_symbol = tp,
           status = classify cfg (if 0 < rq then fst acc / rq else 0) (fst acc),
           target_quantity = rq, filled_quantity = fst acc,
           average_price = (if 0 < fst acc then fst (snd acc) / fst acc else 0),
           r_iterations = snd (snd acc), elapsed_seconds = el, error = None \<rparr>"
  by (simp add: summary_result_def fill_ratio_of_eq average_price_of_eq)

lemma execute_maker_loop_cases:
  assumes "execute_maker_loop n cfg tp side tgt g = Some (r, st')"
  shows "(\<exists>e st. maker_loop n cfg tp side (fst (time_time g)) (initial_state tgt (snd (time_time g)))
                    = Some (Some e, st)
                 \<and> (r, st') = failed_result tp tgt (fst (time_time g)) e st)
       \<or> (\<exists>st. maker_loop n cfg tp side (fst (time_time g)) (initial_state tgt (snd (time_time g)))
                    = Some (None, st)
                 \<and> (r, st') = regular_result cfg tp tgt (fst (time_time g)) st)"
  using assms
  by (auto simp: execute_maker_loop_def split_beta split: option.splits)

text \<open>
  C10: result construction never divides by zero. Both guarded divisions return a
  value; the average price is 0 whenever nothing was filled, on the regular path, on
  the exception path and in the summary of \<open>execute_delta\<close>; the fill ratio is taken
  as 0 whenever the target quantity is 0; and \<open>_execute_maker_loop\<close> never leaves
  with a division error.
\<close>

theorem result_construction_never_divides_by_zero:
  "(\<exists>avg. average_price_of tv tf = Inr avg \<and> (tf = 0 \<longrightarrow> avg = 0))
   \<and> (\<exists>r. fill_ratio_of tf tgt = Inr r \<and> (tgt = 0 \<longrightarrow> r = 0))
   \<and> (\<exists>res. fst (failed_result tp tgt start e st) = Inr res
            \<and> (filled_quantity res = 0 \<longrightarrow> average_price res = 0))
   \<and> (\<exists>res. fst (regular_result cfg tp tgt start st) = Inr res
            \<and> (filled_quantity res = 0 \<longrightarrow> average_price res = 0)
            \<and> (tgt = 0 \<longrightarrow> status res = classify cfg 0 (filled_quantity res)))
   \<and> (\<exists>res. summary_result cfg tp tgt el acc = Inr res
            \<and> (filled_quantity res = 0 \<longrightarrow> average_price res = 0)
            \<and> (tgt = 0 \<longrightarrow> status res = classify cfg 0 (filled_quantity res)))
   \<and> (\<forall>r st'. execute_maker_loop n cfg tp side tgt g = Some (r, st')
            \<longrightarrow> (\<exists>res. r = Inr res \<and> (filled_quantity res = 0 \<longrightarrow> average_price res = 0)))"
proof (intro conjI)
  show "\<exists>avg. average_price_of tv tf = Inr avg \<and> (tf = 0 \<longrightarrow> avg = 0)"
    by (rule average_price_of_safe)
  show "\<exists>r. fill_ratio_of tf tgt = Inr r \<and> (tgt = 0 \<longrightarrow> r = 0)"
    by (rule fill_ratio_of_safe)
  show "\<exists>res. fst (failed_result tp tgt start e st) = Inr res
            \<and> (filled_quantity res = 0 \<longrightarrow> average_price res = 0)"
    by (simp add: failed_result_eq Let_def)
  show "\<exists>res. fst (regular_result cfg tp tgt start st) = Inr res
            \<and> (filled_quantity res = 0 \<longrightarrow> average_price res = 0)
            \<and> (tgt = 0 \<longrightarrow> status res = classify cfg 0 (filled_quantity res))"
    by (simp add: regular_result_eq)
  show "\<exists>res. summary_result cfg tp tgt el acc = Inr res
            \<and> (filled_quantity res = 0 \<longrightarrow> average_price res = 0)
            \<and> (tgt = 0 \<longrightarrow> status res = classify cfg 0 (filled_quantity res))"
    by (simp add: summary_result_eq)
  show "\<forall>r st'. execute_maker_loop n cfg tp side tgt g = Some (r, st')
            \<longrightarrow> (\<exists>res. r = Inr res \<and> (filled_quantity res = 0 \<longrightarrow> average_price res = 0))"
  proof (intro allI impI)
    fix r st'
    assume "execute_maker_loop n cfg tp side tgt g = Some (r, st')"
    from execute_maker_loop_cases [OF this]
    show "\<exists>res. r = Inr res \<and> (filled_quantity res = 0 \<longrightarrow> average_price res = 0)"
      by (auto simp: failed_result_eq regular_result_eq Let_def)
  qed
qed

lemma maker_loop_not_entered:
  assumes "\<not> (0 < remaining st \<and> iterations st < max_iterations cfg)"
      and "maker_loop n cfg tp side start st = Some (x, st')"
  shows "x = None \<and> st' = st"
  using assms by (cases n) auto

text \<open>
  C3: for a positive threshold (the configuration has a fraction of the target there,
  0.95 by default), when the maker loop ends without an exception, with
  \<open>fill_ratio = filled_quantity / target_quantity\<close> (0 for a zero target, as the code
  takes it): a ratio at or above the threshold gives \<open>SUCCESS\<close>, a ratio strictly
  between 0 and the threshold gives \<open>PARTIAL\<close>, and a ratio of 0 gives \<open>FAILED\<close>;
  and when the requested quantity rounds to 0, \<open>execute_delta\<close> returns \<open>SKIPPED\<close>
  with no placement and an untouched gateway.
\<close>

theorem outcome_classification:
  assumes "0 < partial_fill_threshold cfg"
  shows "(\<forall>res st. execute_maker_loop n cfg tp side tgt g = Some (Inr res, st) \<and> error res = None
       \<longrightarrow> (partial_fill_threshold cfg \<le> filled_quantity res / tgt \<longrightarrow> status res = SUCCESS)
         \<and> (0 < filled_quantity res / tgt \<and> filled_quantity res / tgt < partial_fill_threshold cfg
              \<longrightarrow> status res = PARTIAL)
         \<and> (filled_quantity res / tgt = 0 \<longrightarrow> status res = FAILED))
   \<and> (round_quantity (get_trading_pair (symbol d)) \<bar>delta d\<bar> = 0
       \<longrightarrow> (\<exists>res. execute_delta n cfg d g = Some (Inr res, [], g) \<and> status res = SKIPPED))"
proof (intro conjI allI impI)
  fix res st
  assume a: "execute_maker_loop n cfg tp side tgt g = Some (Inr res, st) \<and> error res = None"
  let ?start = "fst (time_time g)" and ?st0 = "initial_state tgt (snd (time_time g))"
  from a execute_maker_loop_cases [of n cfg tp side tgt g "Inr res" st]
  obtain stf where run: "maker_loop n cfg tp side ?start ?st0 = Some (None, stf)"
    and res: "(Inr res, st) = regular_result cfg tp tgt ?start stf"
    by (auto simp: failed_result_eq Let_def)
  from res have fq: "filled_quantity res = total_filled stf"
    and stat: "status res
               = classify cfg (if 0 < tgt then total_filled stf / tgt else 0) (total_filled stf)"
    by (auto simp: regular_result_eq)
  have zero: "total_filled stf = 0" if "\<not> 0 < tgt"
  proof -
    from that have "\<not> (0 < remaining ?st0 \<and> iterations ?st0 < max_iterations cfg)"
      by (simp add: initial_state_def)
    from maker_loop_not_entered [OF this run] show ?thesis
      by (simp add: initial_state_def)
  qed
  have ratio: "(if 0 < tgt then total_filled stf / tgt else 0) = filled_quantity res / tgt"
    using fq zero by auto
  have st: "status res = classify cfg (filled_quantity res / tgt) (filled_quantity res)"
    using stat ratio fq by simp
  have pos: "0 < filled_quantity res" if "0 < filled_quantity res / tgt"
  proof (cases "0 < tgt")
    case True
    with that show ?thesis by (simp add: zero_less_divide_iff)
  next
    case False
    with zero fq have "filled_quantity res = 0" by simp
    with that show ?thesis by simp
  qed
  have nul: "filled_quantity res = 0" if "filled_quantity res / tgt = 0"
  proof (cases "0 < tgt")
    case True
    with that show ?thesis by simp
  next
    case False
    with zero fq show ?thesis by simp
  qed
  show "partial_fill_threshold cfg \<le> filled_quantity res / tgt \<Longrightarrow> status res = SUCCESS"
    using st by (simp add: classify_def)
  show "0 < filled_quantity res / tgt \<and> filled_quantity res / tgt < partial_fill_threshold cfg
        \<Longrightarrow> status res = PARTIAL"
    using st pos by (simp add: classify_def)
  show "filled_quantity res / tgt = 0 \<Longrightarrow> status res = FAILED"
    using st nul assms by (auto simp: classify_def)
next
  assume "round_quantity (get_trading_pair (symbol d)) \<bar>delta d\<bar> = 0"
  then show "\<exists>res. execute_delta n cfg d g = Some (Inr res, [], g) \<and> status res = SKIPPED"
    by (simp add: execute_delta_def skipped_result_def Let_def)
qed

section \<open>Status queries and the cancel race\<close>

lemma query_order_fields [simp]:
  "total_filled (snd (query_order st)) = total_filled st"
  "total_value (snd (query_order st)) = total_value st"
  "remaining (snd (query_order st)) = remaining st"
  "iterations (snd (query_order st)) = iterations st"
  "current_order_id (snd (query_order st)) = current_order_id st"
  "current_order_price (snd (query_order st)) = current_order_price st"
  "order_qty (snd (query_order st)) = order_qty st"
  "placed (snd (query_order st)) = placed st"
  by (simp_all add: query_order_def get_order_def)

lemma read_depth_fields [simp]:
  "total_filled (snd (read_depth st)) = total_filled st"
  "total_value (snd (read_depth st)) = total_value st"
  "remaining (snd (read_depth st)) = remaining st"
  "iterations (snd (read_depth st)) = iterations st"
  "current_order_id (snd (read_depth st)) = current_order_id st"
  "current_order_price (snd (read_depth st)) = current_order_price st"
  "order_qty (snd (read_depth st)) = order_qty st"
  "placed (snd (read_depth st)) = placed st"
  by (simp_all add: read_depth_def get_depth_def)

lemma treated_as_filled_clear:
  "total_filled st1 = total_filled st \<Longrightarrow> total_value st1 = total_value st \<Longrightarrow>
   remaining st1 = remaining st \<Longrightarrow> current_order_price st1 = current_order_price st \<Longrightarrow>
   treated_as_filled st (clear_order (assume_filled st1))"
  by (simp add: treated_as_filled_def clear_order_def assume_filled_def)

lemma replace_block_not_found:
  assumes "truthy (current_order_id st)"
      and "should_replace_order cfg side (current_order_price st) best_price"
      and "fst (fst (query_order st)) = ''NOT_FOUND''"
  shows "replace_block cfg side best_price st = (Continue, clear_order (assume_filled (snd (query_order st))))"
  using assms by (simp add: replace_block_def split_beta)

lemma wait_window_not_found:
  assumes "fst (read_clock st) - order_start < order_timeout cfg"
      and "fst (fst (query_order (snd (read_clock st)))) = ''NOT_FOUND''"
  shows "wait_window (Suc n) cfg side order_start st
         = Some (clear_order (assume_filled (snd (query_order (snd (read_clock st))))))"
  using assms by (simp add: split_beta)

lemma timeout_block_not_found:
  assumes "truthy (current_order_id st)"
      and "order_timeout cfg \<le> fst (read_clock st) - order_start"
      and "fst (fst (query_order (snd (read_clock st)))) = ''NOT_FOUND''"
  shows "timeout_block cfg order_start st
         = (Continue, clear_order (assume_filled (snd (query_order (snd (read_clock st))))))"
  using assms by (simp add: timeout_block_def split_beta)

text \<open>
  C4: when the status query returns \<open>NOT_FOUND\<close> in the replace check, in the wait
  window or at the single-order timeout, the engine adds the whole remaining quantity
  to the fill total at the resting price, sets the remainder to zero, clears the live
  slot and raises nothing; the loop then ends regularly.
\<close>

theorem not_found_is_treated_as_filled:
  "(truthy (current_order_id st)
      \<and> should_replace_order cfg side (current_order_price st) best_price
      \<and> fst (fst (query_order st)) = ''NOT_FOUND''
     \<longrightarrow> fst (replace_block cfg side best_price st) = Continue
         \<and> treated_as_filled st (snd (replace_block cfg side best_price st)))
   \<and> (fst (read_clock st) - order_start < order_timeout cfg
      \<and> fst (fst (query_order (snd (read_clock st)))) = ''NOT_FOUND''
     \<longrightarrow> (\<exists>st'. wait_window (Suc n) cfg side order_start st = Some st'
               \<and> treated_as_filled st st'))
   \<and> (truthy (current_order_id st)
      \<and> order_timeout cfg \<le> fst (read_clock st) - order_start
      \<and> fst (fst (query_order (snd (read_clock st)))) = ''NOT_FOUND''
     \<longrightarrow> fst (timeout_block cfg order_start st) = Continue
         \<and> treated_as_filled st (snd (timeout_block cfg order_start st)))
   \<and> (treated_as_filled st st'
     \<longrightarrow> maker_loop (Suc n) cfg trading_pair side start_time st' = Some (None, st'))"
proof (intro conjI impI)
  assume a: "truthy (current_order_id st)
      \<and> should_replace_order cfg side (current_order_price st) best_price
      \<and> fst (fst (query_order st)) = ''NOT_FOUND''"
  then have eq: "replace_block cfg side best_price st
                 = (Continue, clear_order (assume_filled (snd (query_order st))))"
    by (simp add: replace_block_not_found)
  show "fst (replace_block cfg side best_price st) = Continue"
    by (simp add: eq)
  show "treated_as_filled st (snd (replace_block cfg side best_price st))"
    by (simp add: eq treated_as_filled_clear)
next
  assume a: "fst (read_clock st) - order_start < order_timeout cfg
      \<and> fst (fst (query_order (snd (read_clock st)))) = ''NOT_FOUND''"
  then have eq: "wait_window (Suc n) cfg side order_start st
         = Some (clear_order (assume_filled (snd (query_order (snd (read_clock st))))))"
    by (simp only: wait_window_not_found)
  have "treated_as_filled st (clear_order (assume_filled (snd (query_order (snd (read_clock st))))))"
    by (simp add: treated_as_filled_clear)
  with eq show "\<exists>st'. wait_window (Suc n) cfg side order_start st = Some st'
               \<and> treated_as_filled st st'"
    by blast
next
  assume a: "truthy (current_order_id st)
      \<and> order_timeout cfg \<le> fst (read_clock st) - order_start
      \<and> fst (fst (query_order (snd (read_clock st)))) = ''NOT_FOUND''"
  then have eq: "timeout_block cfg order_start st
         = (Continue, clear_order (assume_filled (snd (query_order (snd (read_clock st))))))"
    by (simp add: timeout_block_not_found)
  show "fst (timeout_block cfg order_start st) = Continue"
    by (simp add: eq)
  show "treated_as_filled st (snd (timeout_block cfg order_start st))"
    by (simp add: eq treated_as_filled_clear)
next
  assume "treated_as_filled st st'"
  then have "remaining st' = 0"
    by (simp add: treated_as_filled_def)
  then show "maker_loop (Suc n) cfg trading_pair side start_time st' = Some (None, st')"
    by simp
qed





section \<open>Concrete runs\<close>

lemmas run_defs = execute_maker_loop_def loop_pass_def replace_block_def place_block_def
  timeout_block_def requery_after_failed_cancel_def query_order_def cancel_order_def
  place_maker_order_def read_clock_def read_depth_def time_time_def get_depth_def
  get_order_def client_cancel_order_def place_order_def get_orderbook_def
  get_order_status_def fold_fill_def assume_filled_def clear_order_def fold_if_positive_def
  truthy_def initial_state_def regular_result_def failed_result_def classify_def
  fill_ratio_of_def average_price_of_def dec_div_def round_quantity_def round_quantity_at_def
  quantity_precision_def min_quantity_def QUANTITY_PRECISION_def MIN_QUANTITY_def
  round_price_def to_integral_value_def should_replace_order_def

lemmas input_defs = sol_book_def accepted_def reports_def full_fill_def default_config_def

lemma small_remainder_run:
  "\<exists>res st. execute_maker_loop 3 default_config ''SOLUSDT'' SELL 1 gw_small_remainder
             = Some (Inr res, st)
           \<and> error res = None \<and> filled_quantity res = 1"
  by (simp add: gw_small_remainder_def input_defs run_defs eval_nat_numeral Let_def)

theorem outcome_classification_witness:
  "0 < partial_fill_threshold default_config
   \<and> map_option status
     (result_of (execute_maker_loop 3 default_config ''SOLUSDT'' SELL 1 gw_small_remainder))
     = Some SUCCESS
   \<and> (\<exists>res. execute_delta 3 default_config tiny_delta gw_small_remainder
               = Some (Inr res, [], gw_small_remainder)
            \<and> status res = SKIPPED)"
proof -
  from small_remainder_run obtain res st
    where run: "execute_maker_loop 3 default_config ''SOLUSDT'' SELL 1 gw_small_remainder
                = Some (Inr res, st)"
      and fields: "error res = None" "filled_quantity res = 1"
    by blast
  have small: "round_quantity (get_trading_pair (symbol tiny_delta)) \<bar>delta tiny_delta\<bar> = 0"
    by (simp add: tiny_delta_def get_trading_pair_def SYMBOL_MAPPING_def round_quantity_def
        round_quantity_at_def quantity_precision_def min_quantity_def QUANTITY_PRECISION_def
        MIN_QUANTITY_def to_integral_value_def Let_def)
  have thr: "partial_fill_threshold default_config \<le> filled_quantity res / 1"
    by (simp add: fields default_config_def)
  have positive: "0 < partial_fill_threshold default_config"
    by (simp add: default_config_def)
  from outcome_classification
         [OF positive, of 3 "''SOLUSDT''" SELL 1 gw_small_remainder tiny_delta]
       run fields thr small
  have "status res = SUCCESS"
    and "\<exists>res. execute_delta 3 default_config tiny_delta gw_small_remainder
               = Some (Inr res, [], gw_small_remainder)
            \<and> status res = SKIPPED"
    by blast+
  with positive show ?thesis
    by (simp add: run result_of_def)
qed


lemma timed_out_run:
  "\<exists>r st. execute_maker_loop 2 default_config ''SOLUSDT'' SELL 1 gw_timed_out = Some (r, st)
         \<and> (\<forall>res. r = Inr res \<longrightarrow> filled_quantity res = 0 \<and> status res = FAILED)"
  by (simp add: gw_timed_out_def input_defs run_defs eval_nat_numeral Let_def)

theorem result_construction_never_divides_by_zero_witness:
  "average_price_of 5 0 = Inr 0
   \<and> fill_ratio_of 0 0 = Inr 0
   \<and> (\<exists>res st. execute_maker_loop 2 default_config ''SOLUSDT'' SELL 1 gw_timed_out
                 = Some (Inr res, st)
              \<and> filled_quantity res = 0 \<and> average_price res = 0)"
proof -
  note at_zero = result_construction_never_divides_by_zero
               [of 5 0 0 "''SOLUSDT''" 0 "''e''" "live_state gw_timed_out" default_config
                   0 "(0, 0, 0)" 2 SELL gw_timed_out]
  note at_one = result_construction_never_divides_by_zero
               [of 5 0 1 "''SOLUSDT''" 0 "''e''" "live_state gw_timed_out" default_config
                   0 "(0, 0, 0)" 2 SELL gw_timed_out]
  from at_zero have a: "average_price_of 5 0 = Inr 0" by auto
  from at_zero have b: "fill_ratio_of 0 0 = Inr 0" by auto
  from timed_out_run obtain r st
    where run: "execute_maker_loop 2 default_config ''SOLUSDT'' SELL 1 gw_timed_out = Some (r, st)"
      and zero: "\<forall>res. r = Inr res \<longrightarrow> filled_quantity res = 0 \<and> status res = FAILED"
    by blast
  from at_one run obtain res
    where res: "r = Inr res" "filled_quantity res = 0 \<longrightarrow> average_price res = 0"
    by blast
  with zero have "filled_quantity res = 0" "average_price res = 0"
    by simp_all
  with run res(1) a b show ?thesis
    by blast
qed


lemmas query_defs = live_state_def gw_unknown_order_def gw_cancel_race_def query_order_def
  get_order_def get_order_status_def truthy_def read_clock_def time_time_def cancel_order_def
  client_cancel_order_def should_replace_order_def reports_def full_fill_def default_config_def

theorem not_found_is_treated_as_filled_witness:
  "fst (replace_block default_config SELL 101 (live_state gw_unknown_order)) = Continue
   \<and> treated_as_filled (live_state gw_unknown_order)
        (snd (replace_block default_config SELL 101 (live_state gw_unknown_order)))
   \<and> (\<exists>st'. wait_window (Suc 0) default_config SELL 0 (live_state gw_unknown_order) = Some st'
           \<and> treated_as_filled (live_state gw_unknown_order) st')
   \<and> fst (timeout_block default_config (- 10) (live_state gw_unknown_order)) = Continue
   \<and> treated_as_filled (live_state gw_unknown_order)
        (snd (timeout_block default_config (- 10) (live_state gw_unknown_order)))
   \<and> maker_loop (Suc 0) default_config ''SOLUSDT'' SELL 0
        (clear_order (assume_filled (live_state gw_unknown_order)))
       = Some (None, clear_order (assume_filled (live_state gw_unknown_order)))"
proof -
  let ?st = "live_state gw_unknown_order"
  let ?st' = "clear_order (assume_filled ?st)"
  have live: "truthy (current_order_id ?st)"
    by (simp add: query_defs)
  have moved: "should_replace_order default_config SELL (current_order_price ?st) 101"
    by (simp add: query_defs)
  have q0: "fst (fst (query_order ?st)) = ''NOT_FOUND''"
    by (simp add: query_defs)
  have q1: "fst (fst (query_order (snd (read_clock ?st)))) = ''NOT_FOUND''"
    by (simp add: query_defs)
  have early: "fst (read_clock ?st) - 0 < order_timeout default_config"
    by (simp add: query_defs)
  have late: "order_timeout default_config \<le> fst (read_clock ?st) - (- 10)"
    by (simp add: query_defs)
  have taken: "treated_as_filled ?st ?st'"
    by (simp add: treated_as_filled_def clear_order_def assume_filled_def)
  note in_window = not_found_is_treated_as_filled
                     [of ?st default_config SELL 101 0 0 ?st' "''SOLUSDT''" 0]
  note at_timeout = not_found_is_treated_as_filled
                     [of ?st default_config SELL 101 "- 10" 0 ?st' "''SOLUSDT''" 0]
  from in_window live moved q0 q1 early taken at_timeout late show ?thesis
    by blast
qed



section \<open>The unused option\<close>

lemma should_replace_order_ignores_ratio:
  "should_replace_order (cfg\<lparr>min_remaining_ratio := r\<rparr>) = should_replace_order cfg"
  by (simp add: fun_eq_iff should_replace_order_def)

lemma round_price_ignores_ratio:
  "round_price (cfg\<lparr>min_remaining_ratio := r\<rparr>) = round_price cfg"
  by (simp add: fun_eq_iff round_price_def)

lemma replace_block_ignores_ratio:
  "replace_block (cfg\<lparr>min_remaining_ratio := r\<rparr>) = replace_block cfg"
  by (simp add: fun_eq_iff replace_block_def should_replace_order_ignores_ratio)

lemma timeout_block_ignores_ratio:
  "timeout_block (cfg\<lparr>min_remaining_ratio := r\<rparr>) = timeout_block cfg"
  by (simp add: fun_eq_iff timeout_block_def)

lemma wait_window_ignores_ratio:
  "wait_window n (cfg\<lparr>min_remaining_ratio := r\<rparr>) side order_start st
   = wait_window n cfg side order_start st"
  by (induction n arbitrary: st)
     (simp_all add: should_replace_order_ignores_ratio split_beta
        cong: if_cong prod.case_cong option.case_cong)

lemma loop_pass_ignores_ratio:
  "loop_pass n (cfg\<lparr>min_remaining_ratio := r\<rparr>) = loop_pass n cfg"
  by (simp add: fun_eq_iff loop_pass_def round_price_ignores_ratio replace_block_ignores_ratio
      timeout_block_ignores_ratio wait_window_ignores_ratio Let_def
      cong: if_cong prod.case_cong option.case_cong flow.case_cong)

lemma maker_loop_ignores_ratio:
  "maker_loop n (cfg\<lparr>min_remaining_ratio := r\<rparr>) tp side start st
   = maker_loop n cfg tp side start st"
  by (induction n arbitrary: st)
     (simp_all add: loop_pass_ignores_ratio
        cong: if_cong prod.case_cong option.case_cong flow.case_cong)

lemma regular_result_ignores_ratio:
  "regular_result (cfg\<lparr>min_remaining_ratio := r\<rparr>) = regular_result cfg"
  by (simp add: fun_eq_iff regular_result_def classify_def
      cong: prod.case_cong sum.case_cong)

lemma execute_maker_loop_ignores_ratio:
  "execute_maker_loop n (cfg\<lparr>min_remaining_ratio := r\<rparr>) = execute_maker_loop n cfg"
  by (simp add: fun_eq_iff execute_maker_loop_def maker_loop_ignores_ratio
      regular_result_ignores_ratio cong: prod.case_cong option.case_cong)

lemma split_loop_ignores_ratio:
  "split_loop n (cfg\<lparr>min_remaining_ratio := r\<rparr>) tp pr rv qs g
   = split_loop n cfg tp pr rv qs g"
  by (induction n arbitrary: rv qs g)
     (simp_all add: Let_def cong: if_cong prod.case_cong sum.case_cong)

lemma split_order_ignores_ratio:
  "split_order n (cfg\<lparr>min_remaining_ratio := r\<rparr>) = split_order n cfg"
  by (simp add: fun_eq_iff split_order_def split_loop_ignores_ratio Let_def
      cong: if_cong)

lemma run_clips_ignores_ratio:
  "run_clips n (cfg\<lparr>min_remaining_ratio := r\<rparr>) tp side qs acc sent g
   = run_clips n cfg tp side qs acc sent g"
  by (induction qs arbitrary: acc sent g)
     (simp_all add: execute_maker_loop_ignores_ratio Let_def
        cong: if_cong prod.case_cong option.case_cong sum.case_cong)

lemma summary_result_ignores_ratio:
  "summary_result (cfg\<lparr>min_remaining_ratio := r\<rparr>) = summary_result cfg"
  by (simp add: fun_eq_iff summary_result_def classify_def cong: sum.case_cong)

lemma execute_delta_ignores_ratio:
  "execute_delta n (cfg\<lparr>min_remaining_ratio := r\<rparr>) = execute_delta n cfg"
  by (simp add: fun_eq_iff execute_delta_def split_order_ignores_ratio run_clips_ignores_ratio
      summary_result_ignores_ratio Let_def
      cong: if_cong prod.case_cong option.case_cong sum.case_cong)

text \<open>
  C8: the claim says the engine stops filling once the remaining fraction of the target
  falls below \<open>min_remaining_ratio\<close>. No function of the engine reads that option:
  every result is the same for every value of it. With the default 5 percent, a clip
  of 1 SOL whose first order is filled for 0.96 and cancelled at its timeout goes on to
  place a second order for the remaining 0.04 (4 percent of the target) and fills it.
\<close>

theorem min_remaining_ratio_is_never_read:
  "execute_maker_loop n (cfg\<lparr>min_remaining_ratio := r\<rparr>) trading_pair side tgt g
     = execute_maker_loop n cfg trading_pair side tgt g
   \<and> execute_delta n (cfg\<lparr>min_remaining_ratio := r\<rparr>) d g = execute_delta n cfg d g
   \<and> min_remaining_ratio default_config = 5 / 100
   \<and> placed_of (execute_maker_loop 3 default_config ''SOLUSDT'' SELL 1 gw_small_remainder)
       = Some [(1, 100), (4 / 100, 100)]
   \<and> map_option filled_quantity
        (result_of (execute_maker_loop 3 default_config ''SOLUSDT'' SELL 1 gw_small_remainder))
       = Some 1"
proof (intro conjI)
  show "execute_maker_loop n (cfg\<lparr>min_remaining_ratio := r\<rparr>) trading_pair side tgt g
     = execute_maker_loop n cfg trading_pair side tgt g"
    by (simp add: execute_maker_loop_ignores_ratio)
  show "execute_delta n (cfg\<lparr>min_remaining_ratio := r\<rparr>) d g = execute_delta n cfg d g"
    by (simp add: execute_delta_ignores_ratio)
  show "min_remaining_ratio default_config = 5 / 100"
    by (simp add: default_config_def)
  show "placed_of (execute_maker_loop 3 default_config ''SOLUSDT'' SELL 1 gw_small_remainder)
       = Some [(1, 100), (4 / 100, 100)]"
    by (simp add: placed_of_def gw_small_remainder_def input_defs run_defs eval_nat_numeral
        Let_def)
  show "map_option filled_quantity
        (result_of (execute_maker_loop 3 default_config ''SOLUSDT'' SELL 1 gw_small_remainder))
       = Some 1"
    by (simp add: result_of_def gw_small_remainder_def input_defs run_defs eval_nat_numeral
        Let_def)
qed

section \<open>The fill total stays within the target\<close>

lemma on_grid_Ints: "on_grid p x \<longleftrightarrow> x * 10 ^ p \<in> \<int>"
  unfolding on_grid_def
  by (metis Ints_of_int floor_of_int Ints_cases)

lemma on_grid_0 [simp]: "on_grid p 0"
  by (simp add: on_grid_def)

lemma on_grid_diff: "on_grid p a \<Longrightarrow> on_grid p b \<Longrightarrow> on_grid p (a - b)"
  by (simp add: on_grid_Ints left_diff_distrib)

lemma to_integral_value_of_int [simp]: "to_integral_value (of_int k) = k"
  by (simp add: to_integral_value_def)

lemma round_quantity_at_on_grid:
  assumes "on_grid p x"
  shows "round_quantity_at p m x = (if x < m then 0 else x)"
proof -
  from assms obtain k :: int where k: "x * 10 ^ p = of_int k"
    by (auto simp: on_grid_Ints elim: Ints_cases)
  then have x: "x = of_int k / 10 ^ p"
    by (simp add: field_simps)
  show ?thesis
    unfolding round_quantity_at_def Let_def k to_integral_value_of_int
    using x by simp
qed

lemma round_quantity_on_grid:
  "on_grid (quantity_precision tp) x \<Longrightarrow>
   round_quantity tp x = (if x < min_quantity tp then 0 else x)"
  by (simp add: round_quantity_def round_quantity_at_on_grid)

lemma honest_gateway_orders:
  "orders g' = orders g \<or> orders g' = stl (orders g) \<Longrightarrow> honest_gateway p g \<Longrightarrow>
   honest_gateway p g'"
  unfolding honest_gateway_def by (metis stl_sset)

lemma read_clock_inv:
  "read_clock st = (t, st1) \<Longrightarrow> loop_inv p tgt st \<Longrightarrow> loop_inv p tgt st1"
  by (auto simp: read_clock_def time_time_def loop_inv_def intro: honest_gateway_orders)

lemma read_depth_inv:
  "read_depth st = (d, st1) \<Longrightarrow> loop_inv p tgt st \<Longrightarrow> loop_inv p tgt st1"
  by (auto simp: read_depth_def get_depth_def loop_inv_def intro: honest_gateway_orders)

lemma cancel_order_inv:
  "cancel_order st = (r, st1) \<Longrightarrow> loop_inv p tgt st \<Longrightarrow> loop_inv p tgt st1"
  by (auto simp: cancel_order_def client_cancel_order_def loop_inv_def
      intro: honest_gateway_orders)

lemma query_order_inv:
  assumes "query_order st = ((s, f), st1)" and "loop_inv p tgt st"
  shows "loop_inv p tgt st1 \<and> f \<le> remaining st1 \<and> on_grid p f"
proof (cases "truthy (current_order_id st)")
  case False
  with assms show ?thesis
    by (auto simp: query_order_def loop_inv_def)
next
  case True
  then have live: "current_order_id st \<noteq> None"
    by (auto simp: truthy_def split: option.splits)
  with assms(2) have q: "0 \<le> order_qty st" "order_qty st \<le> remaining st"
      "on_grid p (order_qty st)" and h: "honest_gateway p (gw st)"
    by (simp_all add: loop_inv_def)
  from True assms(1) have sf: "(s, f) = get_order_status (shd (orders (gw st)) (order_qty st))"
    and st1: "st1 = st\<lparr>gw := (gw st)\<lparr>orders := stl (orders (gw st))\<rparr>\<rparr>"
    by (auto simp: query_order_def get_order_def)
  have "shd (orders (gw st)) \<in> sset (orders (gw st))"
    by (simp add: shd_sset)
  with h q have "honest_fill p (order_qty st) (get_order_status (shd (orders (gw st)) (order_qty st)))"
    unfolding honest_gateway_def by blast
  with sf have f: "f \<le> order_qty st" "on_grid p f"
    by (auto simp: honest_fill_def dest: sym)
  have "honest_gateway p ((gw st)\<lparr>orders := stl (orders (gw st))\<rparr>)"
    using h by (rule honest_gateway_orders [rotated]) simp
  with assms(2) st1 have "loop_inv p tgt st1"
    by (simp add: loop_inv_def)
  with f q st1 show ?thesis
    by simp
qed

lemma fold_fill_inv:
  "loop_inv p tgt st \<Longrightarrow> x \<le> remaining st \<Longrightarrow> on_grid p x \<Longrightarrow>
   loop_inv p tgt (clear_order (fold_fill x st))"
  by (simp add: loop_inv_def clear_order_def fold_fill_def on_grid_diff)

lemma fold_if_positive_inv:
  "loop_inv p tgt st \<Longrightarrow> x \<le> remaining st \<Longrightarrow> on_grid p x \<Longrightarrow>
   loop_inv p tgt (clear_order (fold_if_positive x st))"
  by (simp add: loop_inv_def clear_order_def fold_fill_def fold_if_positive_def on_grid_diff)

lemma fold_if_positive_iter_inv:
  "loop_inv p tgt st \<Longrightarrow> x \<le> remaining st \<Longrightarrow> on_grid p x \<Longrightarrow>
   loop_inv p tgt (clear_order ((fold_if_positive x st)\<lparr>iterations := i\<rparr>))"
  by (simp add: loop_inv_def clear_order_def fold_fill_def fold_if_positive_def on_grid_diff)

lemma assume_filled_inv:
  "loop_inv p tgt st \<Longrightarrow> loop_inv p tgt (clear_order (assume_filled st))"
  by (simp add: loop_inv_def clear_order_def assume_filled_def)

lemma requery_inv:
  assumes "loop_inv p tgt st"
  shows "loop_inv p tgt (requery_after_failed_cancel st)"
proof -
  obtain s f st1 where q: "query_order st = ((s, f), st1)"
    by (metis prod.exhaust)
  from query_order_inv [OF q assms]
  have inv1: "loop_inv p tgt st1" and f: "f \<le> remaining st1" "on_grid p f"
    by simp_all
  from inv1 have r: "on_grid p (remaining st1)"
    by (simp add: loop_inv_def)
  show ?thesis
    using inv1 f r
    by (simp add: requery_after_failed_cancel_def q Let_def loop_inv_def clear_order_def
        fold_fill_def on_grid_diff)
qed

lemma replace_block_inv:
  assumes "loop_inv p tgt st" and "replace_block cfg side bp st = (fl, st')"
  shows "loop_inv p tgt st'"
proof (cases "truthy (current_order_id st)
              \<and> should_replace_order cfg side (current_order_price st) bp")
  case False
  with assms show ?thesis
    by (auto simp: replace_block_def)
next
  case True
  obtain s f st1 where q: "query_order st = ((s, f), st1)"
    by (metis prod.exhaust)
  from query_order_inv [OF q assms(1)]
  have inv1: "loop_inv p tgt st1" and f: "f \<le> remaining st1" "on_grid p f"
    by simp_all
  obtain r st2 where c: "cancel_order st1 = (r, st2)"
    by (metis prod.exhaust)
  from cancel_order_inv [OF c inv1] have inv2: "loop_inv p tgt st2" .
  from c have rem2: "remaining st2 = remaining st1"
    by (auto simp: cancel_order_def client_cancel_order_def)
  from assms(2) True q c show ?thesis
    using inv1 inv2 f rem2
    by (auto simp: replace_block_def Let_def
        intro: fold_if_positive_inv assume_filled_inv requery_inv fold_if_positive_iter_inv
        split: if_splits cancel_resp.splits)
qed

lemma timeout_block_inv:
  assumes "loop_inv p tgt st" and "timeout_block cfg order_start st = (fl, st')"
  shows "loop_inv p tgt st'"
proof (cases "truthy (current_order_id st)")
  case False
  with assms show ?thesis
    by (auto simp: timeout_block_def)
next
  case True
  obtain t st0 where c0: "read_clock st = (t, st0)"
    by (metis prod.exhaust)
  from read_clock_inv [OF c0 assms(1)] have inv0: "loop_inv p tgt st0" .
  obtain s f st1 where q: "query_order st0 = ((s, f), st1)"
    by (metis prod.exhaust)
  from query_order_inv [OF q inv0]
  have inv1: "loop_inv p tgt st1" and f: "f \<le> remaining st1" "on_grid p f"
    by simp_all
  obtain r st2 where c: "cancel_order st1 = (r, st2)"
    by (metis prod.exhaust)
  from cancel_order_inv [OF c inv1] have inv2: "loop_inv p tgt st2" .
  from c have rem2: "remaining st2 = remaining st1"
    by (auto simp: cancel_order_def client_cancel_order_def)
  from assms(2) True c0 q c show ?thesis
    using inv0 inv1 inv2 f rem2
    by (auto simp: timeout_block_def Let_def
        intro: fold_fill_inv assume_filled_inv requery_inv fold_if_positive_iter_inv
        split: if_splits cancel_resp.splits)
qed

lemma wait_window_inv:
  "loop_inv p tgt st \<Longrightarrow> wait_window n cfg side order_start st = Some st' \<Longrightarrow>
   loop_inv p tgt st'"
proof (induction n arbitrary: st)
  case 0
  then show ?case by simp
next
  case (Suc n)
  obtain t st1 where c: "read_clock st = (t, st1)"
    by (metis prod.exhaust)
  from read_clock_inv [OF c Suc.prems(1)] have inv1: "loop_inv p tgt st1" .
  obtain s f st2 where q: "query_order st1 = ((s, f), st2)"
    by (metis prod.exhaust)
  from query_order_inv [OF q inv1]
  have inv2: "loop_inv p tgt st2" and f: "f \<le> remaining st2" "on_grid p f"
    by simp_all
  obtain d st3 where b: "read_depth st2 = (d, st3)"
    by (metis prod.exhaust)
  from read_depth_inv [OF b inv2] have inv3: "loop_inv p tgt st3" .
  from Suc.prems(2) c q b show ?case
    using inv1 inv2 inv3 f Suc.IH
    by (auto simp: Let_def
        intro: fold_fill_inv fold_if_positive_inv assume_filled_inv
        split: if_splits option.splits)
qed

lemma place_block_inv:
  assumes "loop_inv (quantity_precision tp) tgt st"
      and "round_quantity tp (remaining st) \<noteq> 0"
      and "place_block (round_quantity tp (remaining st)) bp st = (fl, st')"
  shows "loop_inv (quantity_precision tp) tgt st'"
proof -
  let ?p = "quantity_precision tp"
  from assms(1) have g: "on_grid ?p (remaining st)" and nn: "0 \<le> remaining st"
    by (simp_all add: loop_inv_def)
  from assms(2) g have rr: "round_quantity tp (remaining st) = remaining st"
    by (simp add: round_quantity_on_grid split: if_splits)
  have honest: "honest_gateway ?p (snd (place_order (gw st)))"
    using assms(1)
    by (auto simp: loop_inv_def place_order_def intro: honest_gateway_orders)
  from assms(3) show ?thesis
    using assms(1) g nn honest
    unfolding rr
    by (auto simp: place_block_def place_maker_order_def loop_inv_def clear_order_def
        split_beta Let_def
        split: if_splits place_resp.splits)
qed

lemma loop_pass_inv:
  assumes "loop_inv (quantity_precision tp) tgt st"
      and "loop_pass n cfg tp side start st = Some (fl, st')"
  shows "loop_inv (quantity_precision tp) tgt st'"
proof -
  let ?p = "quantity_precision tp"
  obtain t st1 where c: "read_clock st = (t, st1)"
    by (metis prod.exhaust)
  from read_clock_inv [OF c assms(1)] have inv1: "loop_inv ?p tgt st1" .
  obtain d st2 where b: "read_depth st1 = (d, st2)"
    by (metis prod.exhaust)
  from read_depth_inv [OF b inv1] have inv2: "loop_inv ?p tgt st2" .
  show ?thesis
  proof (cases "total_timeout cfg < t - start")
    case True
    with assms(2) c inv1 show ?thesis
      by (simp add: loop_pass_def)
  next
    case False
    note in_time = this
    show ?thesis
    proof (cases d)
      case None
      with assms(2) c b in_time inv2 show ?thesis
        by (simp add: loop_pass_def)
    next
      case (Some book)
      obtain bid1 ask1 where book: "book = (bid1, ask1)"
        by (cases book)
      let ?bp = "round_price cfg tp (if side = SELL then ask1 else bid1)"
      obtain fl3 st3 where r: "replace_block cfg side ?bp st2 = (fl3, st3)"
        by (metis prod.exhaust)
      from replace_block_inv [OF inv2 r] have inv3: "loop_inv ?p tgt st3" .
      show ?thesis
      proof (cases "fl3 = Next")
        case False
        with assms(2) c b in_time Some book r inv3 show ?thesis
          by (cases fl3) (auto simp: loop_pass_def Let_def)
      next
        case True
        note next3 = this
        show ?thesis
        proof (cases "round_quantity tp (remaining st3) = 0")
          case True
          with assms(2) c b in_time Some book r next3 inv3 show ?thesis
            by (auto simp: loop_pass_def Let_def)
        next
          case False
          obtain fl4 st4
            where pl: "place_block (round_quantity tp (remaining st3)) ?bp st3 = (fl4, st4)"
            by (metis prod.exhaust)
          from place_block_inv [OF inv3 False pl] have inv4: "loop_inv ?p tgt st4" .
          show ?thesis
          proof (cases "fl4 = Next")
            case False
            with assms(2) c b in_time Some book r next3 \<open>round_quantity tp (remaining st3) \<noteq> 0\<close>
              pl inv4
            show ?thesis
              by (cases fl4) (auto simp: loop_pass_def Let_def)
          next
            case True
            obtain os st5 where c5: "read_clock st4 = (os, st5)"
              by (metis prod.exhaust)
            from read_clock_inv [OF c5 inv4] have inv5: "loop_inv ?p tgt st5" .
            from assms(2) c b in_time Some book r next3
              \<open>round_quantity tp (remaining st3) \<noteq> 0\<close> pl True c5
            obtain st6 where w: "wait_window n cfg side os st5 = Some st6"
              and tb: "timeout_block cfg os st6 = (fl, st')"
              by (auto simp: loop_pass_def Let_def split: option.splits)
            from wait_window_inv [OF inv5 w] have inv6: "loop_inv ?p tgt st6" .
            from timeout_block_inv [OF inv6 tb] show ?thesis .
          qed
        qed
      qed
    qed
  qed
qed

lemma maker_loop_inv:
  "loop_inv (quantity_precision tp) tgt st \<Longrightarrow>
   maker_loop n cfg tp side start st = Some (x, st') \<Longrightarrow>
   loop_inv (quantity_precision tp) tgt st'"
proof (induction n arbitrary: st)
  case 0
  then show ?case by simp
next
  case (Suc n)
  show ?case
  proof (cases "0 < remaining st \<and> iterations st < max_iterations cfg")
    case False
    with Suc.prems show ?thesis by auto
  next
    case True
    with Suc.prems(2) obtain fl st1
      where pass: "loop_pass n cfg tp side start st = Some (fl, st1)"
      by (auto split: option.splits)
    from loop_pass_inv [OF Suc.prems(1) pass]
    have inv1: "loop_inv (quantity_precision tp) tgt st1" .
    from Suc.prems(2) True pass inv1 Suc.IH [OF inv1] show ?thesis
      by (cases fl) auto
  qed
qed

text \<open>
  C1, as amended: for a clip quantity that is a non-negative multiple of the pair's
  quantity step (as every clip that \<open>execute_delta\<close> passes is) and a gateway whose
  status answers never report more than the quantity of the order asked about, in
  multiples of the step, every result the maker loop returns, after a regular end or
  after an exception, has \<open>filled_quantity \<le> target_quantity\<close>.
\<close>

theorem filled_quantity_within_target:
  assumes "0 \<le> tgt"
      and "on_grid (quantity_precision trading_pair) tgt"
      and "honest_gateway (quantity_precision trading_pair) g"
      and "execute_maker_loop n cfg trading_pair side tgt g = Some (Inr res, st)"
  shows "filled_quantity res \<le> tgt"
proof -
  let ?p = "quantity_precision trading_pair"
  let ?st0 = "initial_state tgt (snd (time_time g))"
  have "honest_gateway ?p (snd (time_time g))"
    using assms(3) by (auto simp: time_time_def intro: honest_gateway_orders)
  with assms(1,2) have inv0: "loop_inv ?p tgt ?st0"
    by (simp add: loop_inv_def initial_state_def)
  from execute_maker_loop_cases [OF assms(4)]
  obtain x stf where run: "maker_loop n cfg trading_pair side (fst (time_time g)) ?st0 = Some (x, stf)"
    and fq: "filled_quantity res = total_filled stf"
    by (auto simp: failed_result_eq regular_result_eq Let_def)
  from maker_loop_inv [OF inv0 run] have "total_filled stf + remaining stf = tgt"
    and "0 \<le> remaining stf"
    by (simp_all add: loop_inv_def)
  with fq show ?thesis
    by simp
qed

text \<open>
  C1 as stated fails in two ways. With a first order filled for 0.004 and cancelled,
  the remaining 0.996 is rounded to 1.00 for the next order, whose complete fill brings
  the total to 1.004 for a target of 1. And a gateway that reports an executed quantity
  of 2 for an order of 1 is believed as it is.
\<close>

theorem filled_quantity_exceeds_target:
  "map_option filled_quantity
     (result_of (execute_maker_loop 3 default_config ''SOLUSDT'' SELL 1 gw_odd_lot))
     = Some (1004 / 1000)
   \<and> map_option target_quantity
     (result_of (execute_maker_loop 3 default_config ''SOLUSDT'' SELL 1 gw_odd_lot))
     = Some 1
   \<and> map_option filled_quantity
     (result_of (execute_maker_loop 3 default_config ''SOLUSDT'' SELL 1 gw_over_report))
     = Some 2
   \<and> map_option target_quantity
     (result_of (execute_maker_loop 3 default_config ''SOLUSDT'' SELL 1 gw_over_report))
     = Some 1"
  by (simp add: result_of_def gw_odd_lot_def gw_over_report_def input_defs run_defs
      eval_nat_numeral Let_def)

lemma honest_run:
  "\<exists>res st. execute_maker_loop 3 default_config ''SOLUSDT'' SELL 1 gw_honest
             = Some (Inr res, st) \<and> status res = SUCCESS"
  by (simp add: gw_honest_def part_fill_def input_defs run_defs eval_nat_numeral Let_def)

lemma on_grid_96: "on_grid 2 (24 / 25)"
  by (simp add: on_grid_def)

lemma gw_honest_is_honest: "honest_gateway (quantity_precision ''SOLUSDT'') gw_honest"
  by (auto simp: honest_gateway_def gw_honest_def honest_fill_def get_order_status_def
      part_fill_def full_fill_def quantity_precision_def QUANTITY_PRECISION_def min_def
      on_grid_96)

theorem filled_quantity_within_target_witness:
  "0 \<le> (1 :: rat)
   \<and> on_grid (quantity_precision ''SOLUSDT'') 1
   \<and> honest_gateway (quantity_precision ''SOLUSDT'') gw_honest
   \<and> (\<exists>res st. execute_maker_loop 3 default_config ''SOLUSDT'' SELL 1 gw_honest
                 = Some (Inr res, st)
              \<and> filled_quantity res \<le> 1)"
proof -
  have grid: "on_grid (quantity_precision ''SOLUSDT'') 1"
    by (simp add: on_grid_def)
  from honest_run obtain res st
    where run: "execute_maker_loop 3 default_config ''SOLUSDT'' SELL 1 gw_honest
                = Some (Inr res, st)"
    by blast
  have "filled_quantity res \<le> 1"
    by (rule filled_quantity_within_target [OF _ grid gw_honest_is_honest run]) simp
  with grid gw_honest_is_honest run show ?thesis
    by auto
qed

section \<open>The splitter stays within the input quantity\<close>

text \<open>
  While splitting, the value still to be placed stays non-negative and corresponds to
  a quantity on the step, so a clip that is capped at the remaining quantity is exactly
  that quantity.
\<close>

lemma on_grid_of_int: "on_grid p (of_int k / 10 ^ p)"
  by (simp add: on_grid_Ints)

lemma round_quantity_at_is_on_grid: "on_grid p (round_quantity_at p m x)"
  by (simp add: round_quantity_at_def Let_def on_grid_of_int)

lemma round_quantity_is_on_grid: "on_grid (quantity_precision tp) (round_quantity tp x)"
  by (simp add: round_quantity_def round_quantity_at_is_on_grid)

lemma round_quantity_on_grid_le:
  "on_grid (quantity_precision tp) x \<Longrightarrow> 0 \<le> x \<Longrightarrow> round_quantity tp x \<le> x"
  by (simp add: round_quantity_on_grid)

lemma split_loop_sum:
  "0 < px \<Longrightarrow> 0 \<le> rv \<Longrightarrow> on_grid (quantity_precision tp) (rv / px) \<Longrightarrow>
   split_loop n cfg tp px rv acc g = Some (Inr qs, g') \<Longrightarrow>
   sum_list qs \<le> sum_list acc + rv / px"
proof (induction n arbitrary: rv acc g)
  case 0
  then show ?case by simp
next
  case (Suc n)
  show ?case
  proof (cases "0 < rv")
    case False
    with Suc.prems show ?thesis by simp
  next
    case True
    define sv where "sv =
      (if rv \<le> split_order_max_value cfg then (rv, g)
       else if split_order_random cfg then random_uniform g
       else ((split_order_min_value cfg + split_order_max_value cfg) / 2, g))"
    define sq where "sq = round_quantity tp (fst sv / px)"
    define rq where "rq = rv / px"
    define sq2 where "sq2 = (if rq < sq then round_quantity tp rq else sq)"
    have step: "split_loop (Suc n) cfg tp px rv acc g =
      (if 0 < sq
       then (if 0 < sq2
             then split_loop n cfg tp px (rv - sq2 * px) (acc @ [sq2]) (snd sv)
             else split_loop n cfg tp px rv acc (snd sv))
       else Some (Inr acc, snd sv))"
      using True \<open>0 < px\<close>
      by (simp add: sv_def sq_def rq_def sq2_def dec_div_def split_beta Let_def)
    have rq_pos: "0 < rq"
      using True \<open>0 < px\<close> by (simp add: rq_def)
    have rq_grid: "on_grid (quantity_precision tp) rq"
      using Suc.prems(3) by (simp add: rq_def)
    have sq2_le: "sq2 \<le> rq"
      using rq_pos rq_grid by (auto simp: sq2_def round_quantity_on_grid)
    have sq2_grid: "on_grid (quantity_precision tp) sq2"
      by (simp add: sq2_def sq_def round_quantity_is_on_grid)
    show ?thesis
    proof (cases "0 < sq")
      case False
      with Suc.prems(4) step have "qs = acc" by simp
      with rq_pos show ?thesis by (simp add: rq_def)
    next
      case sq_pos: True
      show ?thesis
      proof (cases "0 < sq2")
        case False
        with Suc.prems(4) step sq_pos
        have "split_loop n cfg tp px rv acc (snd sv) = Some (Inr qs, g')" by simp
        from Suc.IH [OF Suc.prems(1,2,3) this] show ?thesis .
      next
        case True
        with Suc.prems(4) step sq_pos
        have run: "split_loop n cfg tp px (rv - sq2 * px) (acc @ [sq2]) (snd sv)
                   = Some (Inr qs, g')" by simp
        have eq: "(rv - sq2 * px) / px = rq - sq2"
          using \<open>0 < px\<close> by (simp add: rq_def field_simps)
        have nonneg: "0 \<le> rv - sq2 * px"
        proof -
          from sq2_le \<open>0 < px\<close> have "sq2 * px \<le> rq * px"
            by (simp add: mult_right_mono)
          also have "rq * px = rv"
            using \<open>0 < px\<close> by (simp add: rq_def)
          finally show ?thesis by simp
        qed
        have grid: "on_grid (quantity_precision tp) ((rv - sq2 * px) / px)"
          unfolding eq using rq_grid sq2_grid by (rule on_grid_diff)
        from Suc.IH [OF Suc.prems(1) nonneg grid run]
        have "sum_list qs \<le> sum_list (acc @ [sq2]) + (rv - sq2 * px) / px" .
        then show ?thesis
          by (simp add: eq rq_def)
      qed
    qed
  qed
qed

lemma split_loop_not_entered:
  "\<not> 0 < rv \<Longrightarrow> split_loop n cfg tp px rv acc g = Some (Inr qs, g') \<Longrightarrow> qs = acc"
  by (cases n) auto

text \<open>
  C7: for every input quantity on the pair's quantity step (the splitter is only ever
  given the rounded quantity), every positive price, every configuration and every
  outcome of the random draws, the clips that \<open>_split_order\<close> returns sum to no more
  than the input quantity.
\<close>

theorem split_order_within_quantity:
  assumes "on_grid (quantity_precision trading_pair) qty"
      and "0 < px"
      and "split_order n cfg trading_pair qty px g = Some (Inr qs, g')"
  shows "sum_list qs \<le> qty"
proof (cases "\<not> split_order_enabled cfg \<or> qty * px < split_order_threshold cfg")
  case True
  with assms(3) have "qs = [qty]"
    by (auto simp: split_order_def Let_def split: if_splits)
  then show ?thesis by simp
next
  case False
  with assms(3) obtain sqs
    where run: "split_loop n cfg trading_pair px (qty * px) [] g = Some (Inr sqs, g')"
      and qs: "qs = (if sqs = [] then [qty] else sqs)"
    by (auto simp: split_order_def Let_def
        split: if_splits option.splits sum.splits prod.splits)
  show ?thesis
  proof (cases "sqs = []")
    case True
    with qs show ?thesis by simp
  next
    case False
    have nonneg: "0 \<le> qty * px"
    proof (rule ccontr)
      assume "\<not> 0 \<le> qty * px"
      then have "\<not> 0 < qty * px" by simp
      from split_loop_not_entered [OF this run] False show False by simp
    qed
    have "on_grid (quantity_precision trading_pair) (qty * px / px)"
      using assms(1,2) by simp
    from split_loop_sum [OF assms(2) nonneg this run]
    have "sum_list sqs \<le> qty"
      using assms(2) by simp
    with qs False show ?thesis by simp
  qed
qed

lemma on_step_split_run:
  "\<exists>qs g'. split_order 5 fixed_split_config ''SOLUSDT'' (101 / 100) 800 gw_timed_out
             = Some (Inr qs, g')
           \<and> qs = [1 / 4, 1 / 4, 1 / 4, 26 / 100]"
  by (simp add: split_order_def fixed_split_config_def default_config_def dec_div_def
      round_quantity_def round_quantity_at_def quantity_precision_def min_quantity_def
      QUANTITY_PRECISION_def MIN_QUANTITY_def to_integral_value_def eval_nat_numeral Let_def)

theorem split_order_within_quantity_witness:
  "on_grid (quantity_precision ''SOLUSDT'') (101 / 100)
   \<and> 0 < (800 :: rat)
   \<and> (\<exists>qs g'. split_order 5 fixed_split_config ''SOLUSDT'' (101 / 100) 800 gw_timed_out
                 = Some (Inr qs, g')
              \<and> length qs = 4 \<and> sum_list qs \<le> 101 / 100)"
proof -
  have grid: "on_grid (quantity_precision ''SOLUSDT'') (101 / 100)"
    by (simp add: on_grid_def quantity_precision_def QUANTITY_PRECISION_def)
  have pos: "0 < (800 :: rat)"
    by simp
  from on_step_split_run obtain qs g'
    where run: "split_order 5 fixed_split_config ''SOLUSDT'' (101 / 100) 800 gw_timed_out
                = Some (Inr qs, g')"
      and len: "length qs = 4"
    by auto
  from split_order_within_quantity [OF grid pos run] have "sum_list qs \<le> 101 / 100" .
  with grid run len show ?thesis
    by auto
qed

end
